theory Spec2Isabelle
  imports Main "HOL-Library.Sublist"
begin

section \<open>Data model\<close>

text \<open>
  The repository has two source files: the table DSL (\<open>DescribeTable\<close>, \<open>Entry\<close>,
  \<open>generateTable\<close>, \<open>validateParameters\<close>, \<open>invokeFunction\<close>) and the suite
  (\<open>Suite\<close>, \<open>PushNode\<close>, \<open>runSpecs\<close>, \<open>runSpec\<close>, \<open>runNode\<close>, ...).
  The packages \<open>types\<close>, \<open>internal\<close> (nodes, specs, failer, writer),
  \<open>parallel_support\<close>, \<open>reporters\<close> and \<open>formatter\<close> are not part of the
  sources at hand; what the suite uses of them is declared below, each with a remark.
\<close>

text \<open>Modelled from the spec: \<open>types.NodeType\<close>, the node-type tag of section 3.\<close>

datatype NodeType =
    NodeTypeInvalid
  | NodeTypeContainer
  | NodeTypeIt
  | NodeTypeBeforeEach
  | NodeTypeJustBeforeEach
  | NodeTypeAfterEach
  | NodeTypeJustAfterEach
  | NodeTypeBeforeSuite
  | NodeTypeSynchronizedBeforeSuite
  | NodeTypeAfterSuite
  | NodeTypeSynchronizedAfterSuite
  | NodeTypeReportAfterEach
  | NodeTypeReportAfterSuite

text \<open>Modelled from the spec: \<open>types.NodeTypesForSuiteLevelNodes\<close>, the suite-level
  hooks of section 4.1.\<close>

definition NodeTypesForSuiteLevelNodes :: "NodeType list" where
  "NodeTypesForSuiteLevelNodes =
     [NodeTypeBeforeSuite, NodeTypeSynchronizedBeforeSuite, NodeTypeAfterSuite,
      NodeTypeSynchronizedAfterSuite, NodeTypeReportAfterSuite]"

text \<open>Modelled from the spec: \<open>types.SpecState\<close>, the states of a spec report
  (section 3).\<close>

datatype SpecState =
    SpecStateInvalid
  | SpecStatePending
  | SpecStateSkipped
  | SpecStatePassed
  | SpecStateFailed
  | SpecStateAborted
  | SpecStateInterrupted

text \<open>A code location is a file name and a line number.\<close>

type_synonym CodeLocation = "string \<times> int"

datatype FailureNodeContext =
    FailureNodeContextInvalid
  | FailureNodeIsLeafNode
  | FailureNodeAtTopLevel
  | FailureNodeInContainer

record Failure =
  Message :: string
  Location :: CodeLocation
  ForwardedPanic :: string
  FailureNodeContext :: FailureNodeContext
  FailureNodeContainerIndex :: int
  FailureNodeType :: NodeType
  FailureNodeLocation :: CodeLocation

text \<open>The zero value \<open>types.Failure{}\<close>.\<close>

definition zeroFailure :: Failure where
  "zeroFailure = \<lparr> Message = [], Location = ([], 0), ForwardedPanic = [],
     FailureNodeContext = FailureNodeContextInvalid, FailureNodeContainerIndex = 0,
     FailureNodeType = NodeTypeInvalid, FailureNodeLocation = ([], 0) \<rparr>"

text \<open>The spec report; the time stamps (\<open>StartTime\<close>, \<open>EndTime\<close>, \<open>RunTime\<close>) and the
  report entries are left out, no function below reads them.\<close>

record SpecReport =
  ContainerHierarchyTexts :: "string list"
  ContainerHierarchyLocations :: "CodeLocation list"
  LeafNodeType :: NodeType
  LeafNodeLocation :: CodeLocation
  LeafNodeText :: string
  State :: SpecState
  Failure :: Failure
  NumAttempts :: int
  CapturedGinkgoWriterOutput :: string
  CapturedStdOutErr :: string
  GinkgoParallelNode :: int

text \<open>The zero value \<open>types.SpecReport{}\<close>.\<close>

definition zeroSpecReport :: SpecReport where
  "zeroSpecReport = \<lparr> ContainerHierarchyTexts = [], ContainerHierarchyLocations = [],
     LeafNodeType = NodeTypeInvalid, LeafNodeLocation = ([], 0), LeafNodeText = [],
     State = SpecStateInvalid, Failure = zeroFailure, NumAttempts = 0,
     CapturedGinkgoWriterOutput = [], CapturedStdOutErr = [], GinkgoParallelNode = 0 \<rparr>"

record SuiteConfig =
  DryRun :: bool
  FailFast :: bool
  FailOnPending :: bool
  FlakeAttempts :: int
  EmitSpecProgress :: bool
  ParallelNode :: int
  ParallelTotal :: int

record Report =
  SuitePath :: string
  SuiteDescription :: string
  SuiteHasProgrammaticFocus :: bool
  TotalSpecs :: int
  SpecsThatWillRun :: int
  SuiteSucceeded :: bool
  SpecialSuiteFailureReasons :: "string list"
  SpecReports :: "SpecReport list"

text \<open>A node. Its bodies are closures of the test program: a body is named by the node
  and a \<open>BodyKind\<close> below, and what running it does is given by the environment.\<close>

record Node =
  ID :: nat
  NodeType :: NodeType
  Text :: string
  CodeLocation :: CodeLocation
  NestingLevel :: int
  MarkedPending :: bool

text \<open>A spec; \<open>spec.FlakeAttempts()\<close> is not in the sources, its result is the field
  \<open>SpecFlakeAttempts\<close>.\<close>

record Spec =
  Nodes :: "Node list"
  Skip :: bool
  SpecFlakeAttempts :: int

text \<open>Which closure \<open>node.Body\<close> holds when \<open>runNode\<close> calls it: the node's own body, or
  one of the closures that \<open>runSuiteNode\<close>, \<open>reportAfterEach\<close> and
  \<open>runReportAfterSuiteNode\<close> assign to \<open>node.Body\<close> first, with the data they capture.\<close>

datatype BodyKind =
    Body
  | SynchronizedBeforeSuiteNode1Body
  | SynchronizedBeforeSuiteAllNodesBody string
  | SynchronizedAfterSuiteAllNodesBody
  | SynchronizedAfterSuiteNode1Body
  | ReportAfterEachBody SpecReport
  | ReportAfterSuiteBody Report

subsection \<open>The environment\<close>

text \<open>
  What the goroutine that \<open>runNode\<close> starts for a body does. Its result, when the body
  has ended: the outcome and failure that \<open>failer.Drain()\<close> returns and the goroutine
  sends on \<open>outcomeC\<close> and \<open>failureC\<close>, the text the body wrote to the writer, and
  the data a \<open>SynchronizedBeforeSuiteNode1Body\<close> returned. The race with the interrupt:
  \<open>interruptFirst\<close> says that the interrupt fires before the goroutine delivers its
  outcome, and \<open>writtenBeforeInterrupt\<close> is the text the body wrote up to then. The
  \<open>select\<close> of \<open>runNode\<close> is taken to return: the body ends or the interrupt fires.
\<close>

record BodyRun =
  outcome :: SpecState
  failureFromRun :: Failure
  written :: string
  returned :: string
  interruptFirst :: bool
  writtenBeforeInterrupt :: string

record InterruptStatus =
  Interrupted :: bool
  Channel :: nat
  Cause :: string

text \<open>
  The collaborators of the suite, over a state \<open>'w\<close> of the outside world: the test
  bodies, the interrupt handler, the output interceptor, the transport of the parallel
  client and the rendering of node types and code locations. Every call that can depend on
  the moment it is made takes the world and returns the next one.
\<close>

text \<open>The calls to the reporter and the fire-and-forget calls to the parallel client.\<close>

datatype Notification =
    SuiteWillBegin Report
  | WillRun SpecReport
  | DidRun SpecReport
  | SuiteDidEnd Report
  | PostSuiteWillBegin Report
  | PostDidRun SpecReport
  | PostAbort
  | PostSuiteDidEnd Report

text \<open>The calls to the parallel client that touch the synchronized before-suite state.\<close>

datatype ClientCall =
    PostSynchronizedBeforeSuiteSucceeded string
  | PostSynchronizedBeforeSuiteFailed
  | BlockUntilSynchronizedBeforeSuiteData

record 'w Env =
  execBody :: "Node \<Rightarrow> BodyKind \<Rightarrow> nat option \<Rightarrow> 'w \<Rightarrow> BodyRun \<times> 'w"
  interruptHandlerStatus :: "'w \<Rightarrow> InterruptStatus \<times> 'w"
  InterruptMessageWithStackTraces :: "'w \<Rightarrow> string"
  SetInterruptPlaceholderMessage :: "NodeType \<Rightarrow> CodeLocation \<Rightarrow> 'w \<Rightarrow> 'w"
  ClearInterruptPlaceholderMessage :: "'w \<Rightarrow> 'w"
  StartInterceptingOutput :: "'w \<Rightarrow> 'w"
  StopInterceptingAndReturnOutput :: "'w \<Rightarrow> string \<times> 'w"
  notify :: "Notification \<Rightarrow> 'w \<Rightarrow> 'w"
  transportError :: "ClientCall \<Rightarrow> 'w \<Rightarrow> string option \<times> 'w"
  BlockUntilNonprimaryNodesHaveFinished :: "'w \<Rightarrow> string option \<times> 'w"
  BlockUntilAggregatedNonprimaryNodesReport :: "'w \<Rightarrow> (string + Report) \<times> 'w"
  FetchNextCounter :: "'w \<Rightarrow> (string + nat) \<times> 'w"
  SpecStateFailureStates :: "SpecState list"
  BestTextFor :: "Node list \<Rightarrow> Node \<Rightarrow> string"
  NodeTypeString :: "NodeType \<Rightarrow> string"
  CodeLocationString :: "CodeLocation \<Rightarrow> string"

datatype Phase = PhaseBuildTopLevel | PhaseBuildTree | PhaseRun

text \<open>Modelled from the spec: the state that the coordination service keeps for the
  synchronized before-suite hook (section 4.5): nothing yet, the primary's data, or the
  primary's failure signal. The service is not in the sources.\<close>

datatype BeforeSuiteState =
    BeforeSuitePending
  | BeforeSuiteSucceeded string
  | BeforeSuiteFailed

text \<open>
  The suite: the fields \<open>phase\<close>, \<open>suiteNodes\<close> and \<open>currentSpecReport\<close> of
  \<open>Suite\<close> (the tree and the top-level containers are read by \<open>PushNode\<close> and
  \<open>BuildTree\<close> only, which are not modelled), the
  writer's buffer, the state of the coordination service behind \<open>suite.client\<close>, the
  world, \<open>invoked\<close>, the bodies for which a goroutine was started so far, in order,
  \<open>abandoned\<close>, those of these goroutines that \<open>runNode\<close> left behind when the
  interrupt won the \<open>select\<close> (nothing receives from their \<open>outcomeC\<close> any more and
  nothing ends them), and \<open>bodyData\<close>, what the last body that ended returned (the
  variable \<open>data\<close> that the closure of \<open>runSuiteNode\<close> assigns).
\<close>

record 'w Suite =
  phase :: Phase
  suiteNodes :: "Node list"
  writer :: string
  currentSpecReport :: SpecReport
  server :: BeforeSuiteState
  world :: 'w
  invoked :: "(Node \<times> BodyKind) list"
  abandoned :: "(Node \<times> BodyKind) list"
  bodyData :: string

section \<open>Nodes and specs\<close>

text \<open>Modelled from the spec: the methods of \<open>Nodes\<close> and \<open>Specs\<close> that the suite calls
  (\<open>WithType\<close>, the two stable sorts by nesting level, \<open>WithinNestingLevel\<close>,
  \<open>FirstNodeWithType\<close>, \<open>HasNodeMarkedPending\<close>, \<open>CountWithoutSkip\<close>), which are
  not in the sources. \<open>FirstNodeWithType\<close> returns the zero node when there is none, and
  \<open>IsZero\<close> tests for it: here \<open>None\<close>.\<close>

definition WithType :: "NodeType list \<Rightarrow> Node list \<Rightarrow> Node list" where
  "WithType ts ns = filter (\<lambda>n. NodeType n \<in> set ts) ns"

definition SortedByAscendingNestingLevel :: "Node list \<Rightarrow> Node list" where
  "SortedByAscendingNestingLevel ns = sort_key NestingLevel ns"

definition SortedByDescendingNestingLevel :: "Node list \<Rightarrow> Node list" where
  "SortedByDescendingNestingLevel ns = sort_key (\<lambda>n. - NestingLevel n) ns"

definition WithinNestingLevel :: "int \<Rightarrow> Node list \<Rightarrow> Node list" where
  "WithinNestingLevel deepestNestingLevel ns =
     filter (\<lambda>n. NestingLevel n \<le> deepestNestingLevel) ns"

definition FirstNodeWithType :: "NodeType list \<Rightarrow> Node list \<Rightarrow> Node option" where
  "FirstNodeWithType ts ns = (case WithType ts ns of [] \<Rightarrow> None | n # _ \<Rightarrow> Some n)"

definition HasNodeMarkedPending :: "Node list \<Rightarrow> bool" where
  "HasNodeMarkedPending ns = list_ex MarkedPending ns"

definition CountWithoutSkip :: "Spec list \<Rightarrow> nat" where
  "CountWithoutSkip specs = length (filter (\<lambda>s. \<not> Skip s) specs)"

definition HasAnySpecsMarkedPending :: "Spec list \<Rightarrow> bool" where
  "HasAnySpecsMarkedPending specs = list_ex (\<lambda>s. HasNodeMarkedPending (Nodes s)) specs"

section \<open>Running a node\<close>

definition newline :: char where
  "newline = CHR 0x0A"

text \<open>The line \<open>fmt.Sprintf("[%s] %s\n  %s\n", ...)\<close> of \<open>runNode\<close>.\<close>

definition progressLine :: "'w Env \<Rightarrow> Node \<Rightarrow> string \<Rightarrow> string" where
  "progressLine env node text =
     ''['' @ NodeTypeString env (NodeType node) @ ''] '' @ text @ [newline] @ ''  ''
       @ CodeLocationString env (CodeLocation node) @ [newline]"

text \<open>
  \<open>runNode\<close>: the progress line, the failure prepared for the node, then the goroutine
  running the body and the \<open>select\<close> between its outcome and the interrupt channel
  (\<open>None\<close> is the nil channel, which is never ready). \<open>w\<close> is the world when the
  \<open>select\<close> returns. In the case of the outcome, \<open>runNode\<close> receives the outcome
  and the failure and the goroutine ends. In the case of the interrupt, \<open>runNode\<close>
  returns at once: it receives nothing from the goroutine, which goes on and is left
  behind.
\<close>

definition runNode ::
  "'w Env \<Rightarrow> SuiteConfig \<Rightarrow> Node \<Rightarrow> BodyKind \<Rightarrow> nat option \<Rightarrow> string \<Rightarrow> 'w Suite
    \<Rightarrow> (SpecState \<times> Failure) \<times> 'w Suite" where
  "runNode env suiteConfig node body interruptChannel text suite =
    (let suite1 =
           (if EmitSpecProgress suiteConfig
            then suite\<lparr>writer := writer suite
                   @ progressLine env node (if text = [] then ''TOP-LEVEL'' else text)\<rparr>
            else suite);
         failure0 = zeroFailure\<lparr>FailureNodeType := NodeType node,
                      FailureNodeLocation := CodeLocation node\<rparr>;
         failure =
           (if NodeType node = NodeTypeIt \<or> NodeType node \<in> set NodeTypesForSuiteLevelNodes
            then failure0\<lparr>FailureNodeContext := FailureNodeIsLeafNode\<rparr>
            else if NestingLevel node \<le> 0
            then failure0\<lparr>FailureNodeContext := FailureNodeAtTopLevel\<rparr>
            else failure0\<lparr>FailureNodeContext := FailureNodeInContainer,
                   FailureNodeContainerIndex := NestingLevel node - 1\<rparr>);
         (run, w) = execBody env node body interruptChannel (world suite1);
         started = suite1\<lparr>world := w, invoked := invoked suite1 @ [(node, body)]\<rparr>;
         ended = started\<lparr>writer := writer started @ written run, bodyData := returned run\<rparr>
     in if interruptChannel \<noteq> None \<and> interruptFirst run
        then ((SpecStateInterrupted,
               failure\<lparr>Message := InterruptMessageWithStackTraces env w,
                 Location := CodeLocation node\<rparr>),
              started\<lparr>writer := writer started @ writtenBeforeInterrupt run,
                abandoned := abandoned started @ [(node, body)]\<rparr>)
        else if outcome run = SpecStatePassed
        then ((SpecStatePassed, zeroFailure), ended)
        else ((outcome run,
               failure\<lparr>Message := Message (failureFromRun run),
                 Location := Location (failureFromRun run),
                 ForwardedPanic := ForwardedPanic (failureFromRun run)\<rparr>), ended))"

text \<open>\<open>interruptHandler.Status()\<close>, read in the world of the suite.\<close>

definition getStatus :: "'w Env \<Rightarrow> 'w Suite \<Rightarrow> InterruptStatus \<times> 'w Suite" where
  "getStatus env suite =
    (let (status, w) = interruptHandlerStatus env (world suite)
     in (status, suite\<lparr>world := w\<rparr>))"

section \<open>Running a spec\<close>

text \<open>The loop of \<open>runSpec\<close> over the BeforeEach, JustBeforeEach and It nodes: it tracks
  \<open>deepestNestingLevelAttained\<close> and breaks at the first state that is not Passed.\<close>

fun runSetupNodes ::
  "'w Env \<Rightarrow> SuiteConfig \<Rightarrow> Spec \<Rightarrow> nat option \<Rightarrow> Node list \<Rightarrow> int \<Rightarrow> 'w Suite
    \<Rightarrow> int \<times> 'w Suite" where
  "runSetupNodes env suiteConfig spec ch [] deepestNestingLevelAttained suite =
     (deepestNestingLevelAttained, suite)"
| "runSetupNodes env suiteConfig spec ch (node # nodes) deepestNestingLevelAttained suite =
     (let deepest = max deepestNestingLevelAttained (NestingLevel node);
          ((state, failure), suite1) =
             runNode env suiteConfig node Body ch (BestTextFor env (Nodes spec) node) suite;
          suite2 = suite1\<lparr>currentSpecReport :=
                     (currentSpecReport suite1)\<lparr>State := state, Failure := failure\<rparr>\<rparr>
      in if State (currentSpecReport suite2) \<noteq> SpecStatePassed
         then (deepest, suite2)
         else runSetupNodes env suiteConfig spec ch nodes deepest suite2)"

text \<open>One pass of the clean-up loop of \<open>runSpec\<close>.\<close>

definition runCleanUpNode ::
  "'w Env \<Rightarrow> SuiteConfig \<Rightarrow> Spec \<Rightarrow> Node \<Rightarrow> 'w Suite \<Rightarrow> 'w Suite" where
  "runCleanUpNode env suiteConfig spec node suite =
     (let (status, suite0) = getStatus env suite;
          ((state, failure), suite1) =
             runNode env suiteConfig node Body (Some (Channel status))
               (BestTextFor env (Nodes spec) node) suite0
      in if State (currentSpecReport suite1) = SpecStatePassed \<or> state = SpecStateAborted
         then suite1\<lparr>currentSpecReport :=
                (currentSpecReport suite1)\<lparr>State := state, Failure := failure\<rparr>\<rparr>
         else suite1)"

fun runCleanUpNodes ::
  "'w Env \<Rightarrow> SuiteConfig \<Rightarrow> Spec \<Rightarrow> Node list \<Rightarrow> 'w Suite \<Rightarrow> 'w Suite" where
  "runCleanUpNodes env suiteConfig spec [] suite = suite"
| "runCleanUpNodes env suiteConfig spec (node # nodes) suite =
     runCleanUpNodes env suiteConfig spec nodes (runCleanUpNode env suiteConfig spec node suite)"

text \<open>The nodes of the two loops, as \<open>runSpec\<close> builds them.\<close>

definition setupNodes :: "Spec \<Rightarrow> Node list" where
  "setupNodes spec =
     SortedByAscendingNestingLevel (WithType [NodeTypeBeforeEach] (Nodes spec))
     @ SortedByAscendingNestingLevel (WithType [NodeTypeJustBeforeEach] (Nodes spec))
     @ WithType [NodeTypeIt] (Nodes spec)"

definition cleanUpNodes :: "Spec \<Rightarrow> int \<Rightarrow> Node list" where
  "cleanUpNodes spec deepestNestingLevelAttained =
     WithinNestingLevel deepestNestingLevelAttained
       (SortedByDescendingNestingLevel (WithType [NodeTypeJustAfterEach] (Nodes spec))
        @ SortedByDescendingNestingLevel (WithType [NodeTypeAfterEach] (Nodes spec)))"

text \<open>Decimal digits of a number, for the \<open>%d\<close> of the retry notice.\<close>

fun showNat :: "nat \<Rightarrow> string" where
  "showNat n =
     (if n < 10 then [char_of (48 + n)]
      else showNat (n div 10) @ [char_of (48 + n mod 10)])"

declare showNat.simps [simp del]

definition showInt :: "int \<Rightarrow> string" where
  "showInt i = (if i < 0 then ''-'' @ showNat (nat (- i)) else showNat (nat i))"

text \<open>\<open>fmt.Fprintf(writer, "\nGinkgo: Attempt #%d Failed.  Retrying...\n", attempt)\<close>\<close>

definition retryNotice :: "int \<Rightarrow> string" where
  "retryNotice attempt =
     [newline] @ ''Ginkgo: Attempt #'' @ showInt attempt @ '' Failed.  Retrying...''
       @ [newline]"

text \<open>The body of the attempt loop of \<open>runSpec\<close>, up to the reading of the captured
  output; the two returns that follow it are in \<open>attemptLoop\<close>.\<close>

definition runAttempt ::
  "'w Env \<Rightarrow> SuiteConfig \<Rightarrow> Spec \<Rightarrow> int \<Rightarrow> 'w Suite \<Rightarrow> 'w Suite" where
  "runAttempt env suiteConfig spec attempt suite =
     (let suite1 = suite\<lparr>currentSpecReport :=
                     (currentSpecReport suite)\<lparr>NumAttempts := attempt + 1\<rparr>\<rparr>;
          suite2 = (if attempt > 0
                    then suite1\<lparr>writer := writer suite1 @ retryNotice attempt\<rparr>
                    else suite1);
          (interruptStatus, suite3) = getStatus env suite2;
          (deepestNestingLevelAttained, suite4) =
             runSetupNodes env suiteConfig spec (Some (Channel interruptStatus))
               (setupNodes spec) (- 1) suite3;
          suite5 = runCleanUpNodes env suiteConfig spec
                     (cleanUpNodes spec deepestNestingLevelAttained) suite4;
          (out, w) = StopInterceptingAndReturnOutput env (world suite5)
      in suite5\<lparr>currentSpecReport :=
            (currentSpecReport suite5)\<lparr>CapturedGinkgoWriterOutput := writer suite5,
               CapturedStdOutErr := out\<rparr>,
            world := w\<rparr>)"

text \<open>The attempt loop: after an attempt it returns when the state is Passed or the
  interrupt handler reports an interrupt, and goes on to the next attempt otherwise.\<close>

function attemptLoop ::
  "'w Env \<Rightarrow> SuiteConfig \<Rightarrow> Spec \<Rightarrow> int \<Rightarrow> int \<Rightarrow> 'w Suite \<Rightarrow> 'w Suite" where
  "attemptLoop env suiteConfig spec maxAttempts attempt suite =
     (if attempt < maxAttempts
      then (let suite1 = runAttempt env suiteConfig spec attempt suite
            in if State (currentSpecReport suite1) = SpecStatePassed then suite1
               else (let (status, suite2) = getStatus env suite1
                     in if Interrupted status then suite2
                        else attemptLoop env suiteConfig spec maxAttempts (attempt + 1) suite2))
      else suite)"
  by pat_completeness auto
termination
  by (relation "measure (\<lambda>(env, suiteConfig, spec, maxAttempts, attempt, suite).
        nat (maxAttempts - attempt))") auto

declare attemptLoop.simps [simp del]

definition maxAttemptsOf :: "SuiteConfig \<Rightarrow> Spec \<Rightarrow> int" where
  "maxAttemptsOf suiteConfig spec =
     (if FlakeAttempts suiteConfig > 0 then FlakeAttempts suiteConfig
      else max 1 (SpecFlakeAttempts spec))"

definition runSpec :: "'w Env \<Rightarrow> SuiteConfig \<Rightarrow> Spec \<Rightarrow> 'w Suite \<Rightarrow> 'w Suite" where
  "runSpec env suiteConfig spec suite =
     (if DryRun suiteConfig
      then suite\<lparr>currentSpecReport := (currentSpecReport suite)\<lparr>State := SpecStatePassed\<rparr>\<rparr>
      else attemptLoop env suiteConfig spec (maxAttemptsOf suiteConfig spec) 0
             (suite\<lparr>writer := [], world := StartInterceptingOutput env (world suite)\<rparr>))"

section \<open>Report hooks after each spec\<close>

text \<open>One pass of the loop of \<open>reportAfterEach\<close>. The node runs with a nil interrupt
  channel and a nil interrupt handler.\<close>

definition runReportAfterEachNode ::
  "'w Env \<Rightarrow> SuiteConfig \<Rightarrow> Spec \<Rightarrow> Node \<Rightarrow> 'w Suite \<Rightarrow> 'w Suite" where
  "runReportAfterEachNode env suiteConfig spec node suite =
     (let suite0 = suite\<lparr>writer := [],
                     world := SetInterruptPlaceholderMessage env (NodeType node)
                                (CodeLocation node) (StartInterceptingOutput env (world suite))\<rparr>;
          report = currentSpecReport suite0;
          ((state, failure), suite1) =
             runNode env suiteConfig node (ReportAfterEachBody report) None
               (BestTextFor env (Nodes spec) node) suite0;
          suite2 = suite1\<lparr>world := ClearInterruptPlaceholderMessage env (world suite1)\<rparr>;
          suite3 =
            (if State (currentSpecReport suite2) = SpecStatePassed \<or> state = SpecStateAborted
             then suite2\<lparr>currentSpecReport :=
                    (currentSpecReport suite2)\<lparr>State := state, Failure := failure\<rparr>\<rparr>
             else suite2);
          (out, w) = StopInterceptingAndReturnOutput env (world suite3)
      in suite3\<lparr>currentSpecReport :=
            (currentSpecReport suite3)\<lparr>
               CapturedGinkgoWriterOutput :=
                 CapturedGinkgoWriterOutput (currentSpecReport suite3) @ writer suite3,
               CapturedStdOutErr := CapturedStdOutErr (currentSpecReport suite3) @ out\<rparr>,
            world := w\<rparr>)"

fun runReportAfterEachNodes ::
  "'w Env \<Rightarrow> SuiteConfig \<Rightarrow> Spec \<Rightarrow> Node list \<Rightarrow> 'w Suite \<Rightarrow> 'w Suite" where
  "runReportAfterEachNodes env suiteConfig spec [] suite = suite"
| "runReportAfterEachNodes env suiteConfig spec (node # nodes) suite =
     runReportAfterEachNodes env suiteConfig spec nodes
       (runReportAfterEachNode env suiteConfig spec node suite)"

definition reportAfterEach :: "'w Env \<Rightarrow> SuiteConfig \<Rightarrow> Spec \<Rightarrow> 'w Suite \<Rightarrow> 'w Suite" where
  "reportAfterEach env suiteConfig spec suite =
     (let nodes = SortedByDescendingNestingLevel (WithType [NodeTypeReportAfterEach] (Nodes spec))
      in if length nodes = 0 then suite
         else runReportAfterEachNodes env suiteConfig spec nodes suite)"

section \<open>Suite-level hooks\<close>

definition failureForLeafNodeWithError :: "Node \<Rightarrow> string \<Rightarrow> SpecState \<times> Failure" where
  "failureForLeafNodeWithError node err =
     (SpecStateFailed,
      zeroFailure\<lparr>Message := err, Location := CodeLocation node,
        FailureNodeContext := FailureNodeIsLeafNode, FailureNodeType := NodeType node,
        FailureNodeLocation := CodeLocation node\<rparr>)"

definition setStateFailure :: "SpecState \<times> Failure \<Rightarrow> 'w Suite \<Rightarrow> 'w Suite" where
  "setStateFailure sf suite =
     suite\<lparr>currentSpecReport := (currentSpecReport suite)\<lparr>State := fst sf, Failure := snd sf\<rparr>\<rparr>"

text \<open>Modelled from the spec: the three calls of the parallel client for the synchronized
  before-suite hook (section 4.5). A call can fail in the transport; a post that gets through
  stores the primary's data or its failure signal in the service; the blocking read returns
  the data, fails on the failure signal, and does not return (\<open>None\<close>) while there is
  neither. The error texts are placeholders for the client's own.\<close>

definition clientPostSynchronizedBeforeSuiteSucceeded ::
  "'w Env \<Rightarrow> string \<Rightarrow> 'w Suite \<Rightarrow> string option \<times> 'w Suite" where
  "clientPostSynchronizedBeforeSuiteSucceeded env data suite =
     (let (err, w) = transportError env (PostSynchronizedBeforeSuiteSucceeded data) (world suite)
      in case err of
           Some e \<Rightarrow> (Some e, suite\<lparr>world := w\<rparr>)
         | None \<Rightarrow> (None, suite\<lparr>server := BeforeSuiteSucceeded data, world := w\<rparr>))"

definition clientPostSynchronizedBeforeSuiteFailed ::
  "'w Env \<Rightarrow> 'w Suite \<Rightarrow> string option \<times> 'w Suite" where
  "clientPostSynchronizedBeforeSuiteFailed env suite =
     (let (err, w) = transportError env PostSynchronizedBeforeSuiteFailed (world suite)
      in case err of
           Some e \<Rightarrow> (Some e, suite\<lparr>world := w\<rparr>)
         | None \<Rightarrow> (None, suite\<lparr>server := BeforeSuiteFailed, world := w\<rparr>))"

definition clientBlockUntilSynchronizedBeforeSuiteData ::
  "'w Env \<Rightarrow> 'w Suite \<Rightarrow> ((string \<times> string option) \<times> 'w Suite) option" where
  "clientBlockUntilSynchronizedBeforeSuiteData env suite =
     (let (err, w) = transportError env BlockUntilSynchronizedBeforeSuiteData (world suite)
      in case err of
           Some e \<Rightarrow> Some (([], Some e), suite\<lparr>world := w\<rparr>)
         | None \<Rightarrow>
            (case server suite of
               BeforeSuiteSucceeded data \<Rightarrow> Some ((data, None), suite\<lparr>world := w\<rparr>)
             | BeforeSuiteFailed \<Rightarrow>
                 Some (([], Some ''synchronized before suite failed on node 1''), suite\<lparr>world := w\<rparr>)
             | BeforeSuitePending \<Rightarrow> None))"

text \<open>The end of \<open>runSuiteNode\<close>: a remaining error becomes the failure of the hook when
  the state is Invalid or Passed, then the captured output is stored.\<close>

definition finishSuiteNode ::
  "'w Env \<Rightarrow> Node \<Rightarrow> string option \<Rightarrow> 'w Suite \<Rightarrow> 'w Suite" where
  "finishSuiteNode env node err suite =
     (let suite1 =
            (case err of
               Some e \<Rightarrow>
                 (if State (currentSpecReport suite) \<in> {SpecStateInvalid, SpecStatePassed}
                  then setStateFailure (failureForLeafNodeWithError node e) suite
                  else suite)
             | None \<Rightarrow> suite);
          (out, w) = StopInterceptingAndReturnOutput env (world suite1)
      in suite1\<lparr>currentSpecReport :=
            (currentSpecReport suite1)\<lparr>CapturedGinkgoWriterOutput := writer suite1,
               CapturedStdOutErr := out\<rparr>,
            world := w\<rparr>)"

text \<open>The case \<open>NodeTypeSynchronizedBeforeSuite\<close> of \<open>runSuiteNode\<close>; it gives the error
  left in \<open>err\<close> and the suite, or \<open>None\<close> when the worker blocks for ever.\<close>

definition runSynchronizedBeforeSuite ::
  "'w Env \<Rightarrow> SuiteConfig \<Rightarrow> Node \<Rightarrow> nat option \<Rightarrow> 'w Suite
    \<Rightarrow> (string option \<times> 'w Suite) option" where
  "runSynchronizedBeforeSuite env suiteConfig node interruptChannel suite =
     (let produced =
            (if ParallelNode suiteConfig = 1
             then (let (sf, suite1) = runNode env suiteConfig node SynchronizedBeforeSuiteNode1Body
                                        interruptChannel [] suite;
                       data = bodyData suite1;
                       suite2 = setStateFailure sf suite1;
                       (err, suite3) =
                         (if ParallelTotal suiteConfig > 1
                               \<and> State (currentSpecReport suite2) = SpecStatePassed
                          then clientPostSynchronizedBeforeSuiteSucceeded env data suite2
                          else if ParallelTotal suiteConfig > 1
                          then clientPostSynchronizedBeforeSuiteFailed env suite2
                          else (None, suite2))
                   in Some (data, err,
                        State (currentSpecReport suite3) = SpecStatePassed \<and> err = None, suite3))
             else (case clientBlockUntilSynchronizedBeforeSuiteData env suite of
                     None \<Rightarrow> None
                   | Some ((data, err), suite1) \<Rightarrow> Some (data, err, err = None, suite1)))
      in case produced of
           None \<Rightarrow> None
         | Some (data, err, runAllNodes, suite3) \<Rightarrow>
             (if runAllNodes
              then (let (sf, suite4) =
                          runNode env suiteConfig node (SynchronizedBeforeSuiteAllNodesBody data)
                            interruptChannel [] suite3
                    in Some (err, setStateFailure sf suite4))
              else Some (err, suite3)))"

text \<open>The case \<open>NodeTypeSynchronizedAfterSuite\<close> of \<open>runSuiteNode\<close>.\<close>

definition runSynchronizedAfterSuite ::
  "'w Env \<Rightarrow> SuiteConfig \<Rightarrow> Node \<Rightarrow> nat option \<Rightarrow> 'w Suite \<Rightarrow> string option \<times> 'w Suite" where
  "runSynchronizedAfterSuite env suiteConfig node interruptChannel suite =
     (let (sf, suite1) = runNode env suiteConfig node SynchronizedAfterSuiteAllNodesBody
                           interruptChannel [] suite;
          suite2 = setStateFailure sf suite1
      in if ParallelNode suiteConfig = 1
         then (let (err, suite3) =
                     (if ParallelTotal suiteConfig > 1
                      then (let (e, w) = BlockUntilNonprimaryNodesHaveFinished env (world suite2)
                            in (e, suite2\<lparr>world := w\<rparr>))
                      else (None, suite2))
               in if err = None
                  then (let (sf1, suite4) =
                              runNode env suiteConfig node SynchronizedAfterSuiteNode1Body
                                interruptChannel [] suite3
                        in if State (currentSpecReport suite4) = SpecStatePassed
                           then (err, setStateFailure sf1 suite4)
                           else (err, suite4))
                  else (err, suite3))
         else (None, suite2))"

definition runSuiteNode ::
  "'w Env \<Rightarrow> SuiteConfig \<Rightarrow> Node \<Rightarrow> nat option \<Rightarrow> 'w Suite \<Rightarrow> 'w Suite option" where
  "runSuiteNode env suiteConfig node interruptChannel suite =
     (if DryRun suiteConfig
      then Some (suite\<lparr>currentSpecReport :=
                   (currentSpecReport suite)\<lparr>State := SpecStatePassed\<rparr>\<rparr>)
      else (let suite0 = suite\<lparr>writer := [], world := StartInterceptingOutput env (world suite)\<rparr>
            in if NodeType node = NodeTypeBeforeSuite \<or> NodeType node = NodeTypeAfterSuite
               then (let (sf, suite1) = runNode env suiteConfig node Body interruptChannel [] suite0
                     in Some (finishSuiteNode env node None (setStateFailure sf suite1)))
               else if NodeType node = NodeTypeSynchronizedBeforeSuite
               then (case runSynchronizedBeforeSuite env suiteConfig node interruptChannel suite0 of
                       None \<Rightarrow> None
                     | Some (err, suite1) \<Rightarrow> Some (finishSuiteNode env node err suite1))
               else if NodeType node = NodeTypeSynchronizedAfterSuite
               then (let (err, suite1) =
                           runSynchronizedAfterSuite env suiteConfig node interruptChannel suite0
                     in Some (finishSuiteNode env node err suite1))
               else Some (finishSuiteNode env node None suite0)))"

text \<open>Modelled from the spec: \<open>report.Add\<close>, which is not in the sources: the reports
  of the other workers are concatenated and the success flags ANDed (section 3).\<close>

definition reportAdd :: "Report \<Rightarrow> Report \<Rightarrow> Report" where
  "reportAdd report other =
     report\<lparr>SpecReports := SpecReports report @ SpecReports other,
       SpecialSuiteFailureReasons :=
         SpecialSuiteFailureReasons report @ SpecialSuiteFailureReasons other,
       SuiteSucceeded := (SuiteSucceeded report \<and> SuiteSucceeded other)\<rparr>"

definition runReportAfterSuiteNode ::
  "'w Env \<Rightarrow> SuiteConfig \<Rightarrow> Node \<Rightarrow> Report \<Rightarrow> 'w Suite \<Rightarrow> 'w Suite" where
  "runReportAfterSuiteNode env suiteConfig node report suite =
     (if DryRun suiteConfig
      then suite\<lparr>currentSpecReport := (currentSpecReport suite)\<lparr>State := SpecStatePassed\<rparr>\<rparr>
      else (let suite0 = suite\<lparr>writer := [], world := StartInterceptingOutput env (world suite)\<rparr>;
                (aggregated, suite1) =
                  (if ParallelTotal suiteConfig > 1
                   then (let (r, w) = BlockUntilAggregatedNonprimaryNodesReport env (world suite0)
                         in (case r of
                               Inl e \<Rightarrow> Inl e
                             | Inr aggregatedReport \<Rightarrow> Inr (reportAdd report aggregatedReport),
                             suite0\<lparr>world := w\<rparr>))
                   else (Inr report, suite0))
            in case aggregated of
                 Inl e \<Rightarrow> setStateFailure (failureForLeafNodeWithError node e) suite1
               | Inr report1 \<Rightarrow>
                  (let suite2 = suite1\<lparr>world := SetInterruptPlaceholderMessage env (NodeType node)
                                            (CodeLocation node) (world suite1)\<rparr>;
                       (sf, suite3) = runNode env suiteConfig node (ReportAfterSuiteBody report1)
                                        None [] suite2;
                       suite4 = (setStateFailure sf suite3)\<lparr>world :=
                                   ClearInterruptPlaceholderMessage env (world suite3)\<rparr>;
                       (out, w) = StopInterceptingAndReturnOutput env (world suite4)
                   in suite4\<lparr>currentSpecReport :=
                         (currentSpecReport suite4)\<lparr>CapturedGinkgoWriterOutput := writer suite4,
                            CapturedStdOutErr := out\<rparr>,
                         world := w\<rparr>)))"

section \<open>Running the specs\<close>

text \<open>The closure \<open>processSpecReport\<close> of \<open>runSpecs\<close>.\<close>

definition processSpecReport ::
  "'w Env \<Rightarrow> SuiteConfig \<Rightarrow> SpecReport \<Rightarrow> Report \<times> 'w Suite \<Rightarrow> Report \<times> 'w Suite" where
  "processSpecReport env suiteConfig specReport rs =
     (let (report, suite) = rs;
          w1 = notify env (DidRun specReport) (world suite);
          w2 = (if ParallelTotal suiteConfig > 1 then notify env (PostDidRun specReport) w1 else w1);
          report1 = (if State specReport \<in> set (SpecStateFailureStates env)
                     then report\<lparr>SuiteSucceeded := False\<rparr> else report)
      in (report1\<lparr>SpecReports := SpecReports report1 @ [specReport]\<rparr>, suite\<lparr>world := w2\<rparr>))"

text \<open>Modelled from the spec: \<open>MakeNextIndexCounter\<close>, which is not in the sources
  (section 4.6). A single worker counts 0, 1, 2, ...; with several workers the shared
  counter of the coordination service hands out the next unclaimed index, which is the
  worker's own next index plus the indices the other workers claimed in between, or the
  call fails. \<open>counter\<close> is the least index the worker can still get.\<close>

definition nextIndex ::
  "'w Env \<Rightarrow> SuiteConfig \<Rightarrow> nat \<Rightarrow> 'w \<Rightarrow> (string + nat) \<times> 'w" where
  "nextIndex env suiteConfig counter w =
     (if ParallelTotal suiteConfig > 1
      then (case FetchNextCounter env w of
              (Inl err, w1) \<Rightarrow> (Inl err, w1)
            | (Inr claimedByOthers, w1) \<Rightarrow> (Inr (counter + claimedByOthers), w1))
      else (Inr counter, w))"

definition leafSpecReport :: "SuiteConfig \<Rightarrow> Spec \<Rightarrow> SpecReport" where
  "leafSpecReport suiteConfig spec =
     zeroSpecReport\<lparr>
       ContainerHierarchyTexts := map Text (WithType [NodeTypeContainer] (Nodes spec)),
       ContainerHierarchyLocations := map CodeLocation (WithType [NodeTypeContainer] (Nodes spec)),
       LeafNodeLocation :=
         (case FirstNodeWithType [NodeTypeIt] (Nodes spec) of None \<Rightarrow> ([], 0)
          | Some n \<Rightarrow> CodeLocation n),
       LeafNodeType := NodeTypeIt,
       LeafNodeText :=
         (case FirstNodeWithType [NodeTypeIt] (Nodes spec) of None \<Rightarrow> [] | Some n \<Rightarrow> Text n),
       GinkgoParallelNode := ParallelNode suiteConfig\<rparr>"

definition suiteNodeSpecReport :: "SuiteConfig \<Rightarrow> Node \<Rightarrow> SpecReport" where
  "suiteNodeSpecReport suiteConfig node =
     zeroSpecReport\<lparr>LeafNodeType := NodeType node, LeafNodeLocation := CodeLocation node,
       GinkgoParallelNode := ParallelNode suiteConfig\<rparr>"

text \<open>
  One pass of the loop of \<open>runSpecs\<close> for the spec at the index obtained: the fresh
  report, the decision to skip (the interrupt handler is asked only when fail-fast has not
  decided already), the state of a skipped spec, \<open>runSpec\<close>, \<open>reportAfterEach\<close>,
  \<open>processSpecReport\<close>, the abort flag and the abort broadcast.
\<close>

definition runSpecsIteration ::
  "'w Env \<Rightarrow> SuiteConfig \<Rightarrow> Spec \<Rightarrow> Report \<times> bool \<times> 'w Suite \<Rightarrow> Report \<times> bool \<times> 'w Suite" where
  "runSpecsIteration env suiteConfig spec0 st =
     (let (report, suiteAborted, suite) = st;
          suite1 = suite\<lparr>currentSpecReport := leafSpecReport suiteConfig spec0\<rparr>;
          (skip, suite2) =
            (if FailFast suiteConfig \<and> \<not> SuiteSucceeded report then (True, suite1)
             else (let (status, suite') = getStatus env suite1
                   in (Interrupted status \<or> suiteAborted, suite')));
          spec = (if skip then spec0\<lparr>Skip := True\<rparr> else spec0);
          suite3 =
            (if Skip spec
             then suite2\<lparr>currentSpecReport := (currentSpecReport suite2)\<lparr>State :=
                     (if HasNodeMarkedPending (Nodes spec) then SpecStatePending
                      else SpecStateSkipped)\<rparr>\<rparr>
             else suite2);
          suite4 = suite3\<lparr>world := notify env (WillRun (currentSpecReport suite3)) (world suite3)\<rparr>;
          suite5 = (if \<not> Skip spec then runSpec env suiteConfig spec suite4 else suite4);
          suite6 = reportAfterEach env suiteConfig spec suite5;
          (report1, suite7) =
             processSpecReport env suiteConfig (currentSpecReport suite6) (report, suite6);
          suiteAborted1 =
            (if State (currentSpecReport suite7) = SpecStateAborted then True else suiteAborted);
          suite8 =
            (if ParallelTotal suiteConfig > 1
                 \<and> (suiteAborted1 \<or> (FailFast suiteConfig \<and> \<not> SuiteSucceeded report1))
             then suite7\<lparr>world := notify env PostAbort (world suite7)\<rparr>
             else suite7)
      in (report1, suiteAborted1, suite8\<lparr>currentSpecReport := zeroSpecReport\<rparr>))"

text \<open>The loop of \<open>runSpecs\<close> over the indices that \<open>nextIndex\<close> hands out.\<close>

function runSpecsLoop ::
  "'w Env \<Rightarrow> SuiteConfig \<Rightarrow> Spec list \<Rightarrow> nat \<Rightarrow> Report \<times> bool \<times> 'w Suite
    \<Rightarrow> Report \<times> bool \<times> 'w Suite" where
  "runSpecsLoop env suiteConfig specs counter st =
     (case nextIndex env suiteConfig counter (world (snd (snd st))) of
        (Inl err, w) \<Rightarrow>
          ((fst st)\<lparr>SpecialSuiteFailureReasons := SpecialSuiteFailureReasons (fst st)
                @ [''Failed to iterate over specs:'' @ [newline] @ err],
              SuiteSucceeded := False\<rparr>,
           fst (snd st), (snd (snd st))\<lparr>world := w\<rparr>)
      | (Inr idx, w) \<Rightarrow>
          (if idx \<ge> length specs
           then (fst st, fst (snd st), (snd (snd st))\<lparr>world := w\<rparr>)
           else runSpecsLoop env suiteConfig specs (Suc idx)
                  (runSpecsIteration env suiteConfig (specs ! idx)
                     (fst st, fst (snd st), (snd (snd st))\<lparr>world := w\<rparr>))))"
  by pat_completeness auto
termination
  by (relation "measure (\<lambda>(env, suiteConfig, specs, counter, st). length specs - counter)")
     (auto simp: nextIndex_def split: if_splits prod.splits sum.splits)

declare runSpecsLoop.simps [simp del]

text \<open>The after-suite hook of \<open>runSpecs\<close>.\<close>

definition runAfterSuite ::
  "'w Env \<Rightarrow> SuiteConfig \<Rightarrow> nat \<Rightarrow> Report \<times> 'w Suite \<Rightarrow> (Report \<times> 'w Suite) option" where
  "runAfterSuite env suiteConfig numSpecsThatWillBeRun rs =
     (let (report, suite) = rs
      in case FirstNodeWithType [NodeTypeAfterSuite, NodeTypeSynchronizedAfterSuite]
                (suiteNodes suite) of
           None \<Rightarrow> Some (report, suite)
         | Some afterSuiteNode \<Rightarrow>
            (if numSpecsThatWillBeRun > 0
             then (let suite1 = suite\<lparr>currentSpecReport :=
                                   suiteNodeSpecReport suiteConfig afterSuiteNode\<rparr>;
                       suite2 = suite1\<lparr>world := notify env (WillRun (currentSpecReport suite1))
                                                   (world suite1)\<rparr>;
                       (status, suite3) = getStatus env suite2
                   in case runSuiteNode env suiteConfig afterSuiteNode (Some (Channel status))
                             suite3 of
                        None \<Rightarrow> None
                      | Some suite4 \<Rightarrow>
                          Some (processSpecReport env suiteConfig (currentSpecReport suite4)
                                  (report, suite4)))
             else Some (report, suite)))"

text \<open>The before-suite hook of \<open>runSpecs\<close>.\<close>

definition runBeforeSuite ::
  "'w Env \<Rightarrow> SuiteConfig \<Rightarrow> nat \<Rightarrow> Report \<times> 'w Suite \<Rightarrow> (Report \<times> 'w Suite) option" where
  "runBeforeSuite env suiteConfig numSpecsThatWillBeRun rs =
     (let (report, suite) = rs;
          (interruptStatus, suite0) = getStatus env suite
      in case FirstNodeWithType [NodeTypeBeforeSuite, NodeTypeSynchronizedBeforeSuite]
                (suiteNodes suite0) of
           None \<Rightarrow> Some (report, suite0)
         | Some beforeSuiteNode \<Rightarrow>
            (if \<not> Interrupted interruptStatus \<and> numSpecsThatWillBeRun > 0
             then (let suite1 = suite0\<lparr>currentSpecReport :=
                                   suiteNodeSpecReport suiteConfig beforeSuiteNode\<rparr>;
                       suite2 = suite1\<lparr>world := notify env (WillRun (currentSpecReport suite1))
                                                   (world suite1)\<rparr>
                   in case runSuiteNode env suiteConfig beforeSuiteNode
                             (Some (Channel interruptStatus)) suite2 of
                        None \<Rightarrow> None
                      | Some suite3 \<Rightarrow>
                          Some (processSpecReport env suiteConfig (currentSpecReport suite3)
                                  (report, suite3)))
             else Some (report, suite0)))"

text \<open>The loop of \<open>runSpecs\<close> over the ReportAfterSuite nodes.\<close>

fun runReportAfterSuiteNodes ::
  "'w Env \<Rightarrow> SuiteConfig \<Rightarrow> Node list \<Rightarrow> Report \<times> 'w Suite \<Rightarrow> Report \<times> 'w Suite" where
  "runReportAfterSuiteNodes env suiteConfig [] rs = rs"
| "runReportAfterSuiteNodes env suiteConfig (node # nodes) rs =
     (let (report, suite) = rs;
          suite1 = suite\<lparr>currentSpecReport :=
                      zeroSpecReport\<lparr>LeafNodeType := NodeType node,
                        LeafNodeLocation := CodeLocation node, LeafNodeText := Text node,
                        GinkgoParallelNode := ParallelNode suiteConfig\<rparr>\<rparr>;
          suite2 = suite1\<lparr>world := notify env (WillRun (currentSpecReport suite1)) (world suite1)\<rparr>;
          suite3 = runReportAfterSuiteNode env suiteConfig node report suite2
      in runReportAfterSuiteNodes env suiteConfig nodes
           (processSpecReport env suiteConfig (currentSpecReport suite3) (report, suite3)))"

text \<open>The spec loop of \<open>runSpecs\<close> with the test that follows it, entered only when the
  suite has succeeded so far.\<close>

definition runSpecsMain ::
  "'w Env \<Rightarrow> SuiteConfig \<Rightarrow> Spec list \<Rightarrow> Report \<times> 'w Suite \<Rightarrow> Report \<times> 'w Suite" where
  "runSpecsMain env suiteConfig specs rs =
     (let (report, suite) = rs
      in if SuiteSucceeded report
         then (let (report1, suiteAborted, suite1) =
                     runSpecsLoop env suiteConfig specs 0 (report, False, suite)
               in if HasAnySpecsMarkedPending specs \<and> FailOnPending suiteConfig
                  then (report1\<lparr>SpecialSuiteFailureReasons := SpecialSuiteFailureReasons report1
                           @ [''Detected pending specs and --fail-on-pending is set''],
                          SuiteSucceeded := False\<rparr>, suite1)
                  else (report1, suite1))
         else (report, suite))"

text \<open>\<open>runSpecs\<close>; it gives the report with the value returned, \<open>report.SuiteSucceeded\<close>,
  or \<open>None\<close> when a suite hook blocks for ever.\<close>

definition runSpecs ::
  "'w Env \<Rightarrow> SuiteConfig \<Rightarrow> string \<Rightarrow> string \<Rightarrow> bool \<Rightarrow> Spec list \<Rightarrow> 'w Suite
    \<Rightarrow> (Report \<times> 'w Suite) option" where
  "runSpecs env suiteConfig description suitePath hasProgrammaticFocus specs suite =
     (let numSpecsThatWillBeRun = CountWithoutSkip specs;
          report = \<lparr> SuitePath = suitePath, SuiteDescription = description,
                     SuiteHasProgrammaticFocus = hasProgrammaticFocus,
                     TotalSpecs = int (length specs),
                     SpecsThatWillRun = int numSpecsThatWillBeRun,
                     SuiteSucceeded = False, SpecialSuiteFailureReasons = [],
                     SpecReports = [] \<rparr>;
          w1 = notify env (SuiteWillBegin report) (world suite);
          w2 = (if ParallelTotal suiteConfig > 1 then notify env (PostSuiteWillBegin report) w1
                else w1);
          report1 = report\<lparr>SuiteSucceeded := True\<rparr>
      in case runBeforeSuite env suiteConfig numSpecsThatWillBeRun
                (report1, suite\<lparr>world := w2\<rparr>) of
           None \<Rightarrow> None
         | Some rs1 \<Rightarrow>
            (case runAfterSuite env suiteConfig numSpecsThatWillBeRun
                    (runSpecsMain env suiteConfig specs rs1) of
               None \<Rightarrow> None
             | Some (report2, suite2) \<Rightarrow>
                (let (interruptStatus, suite3) = getStatus env suite2;
                     report3 =
                       (if Interrupted interruptStatus
                        then report2\<lparr>SpecialSuiteFailureReasons :=
                               SpecialSuiteFailureReasons report2 @ [Cause interruptStatus],
                               SuiteSucceeded := False\<rparr>
                        else report2);
                     (report4, suite4) =
                       (if ParallelNode suiteConfig = 1
                        then runReportAfterSuiteNodes env suiteConfig
                               (WithType [NodeTypeReportAfterSuite] (suiteNodes suite3))
                               (report3, suite3)
                        else (report3, suite3));
                     w3 = notify env (SuiteDidEnd report4) (world suite4);
                     w4 = (if ParallelTotal suiteConfig > 1
                           then notify env (PostSuiteDidEnd report4) w3 else w3)
                 in Some (report4, suite4\<lparr>world := w4\<rparr>))))"

section \<open>The attempts of a spec, one after the other\<close>






section \<open>Registering suite nodes\<close>

text \<open>
  The errors of \<open>types.GinkgoErrors\<close> that the two files build, each with the arguments
  the source passes; the package is not in the sources, so the texts are not modelled.
\<close>

datatype GoType =
    GoString
  | GoInt
  | GoBool
  | GoNamed string
  | GoSlice GoType
  | GoFunc "GoType list" "GoType option" "GoType list"

datatype GinkgoError =
    SuiteNodeInNestedContext NodeType CodeLocation
  | SuiteNodeDuringRunPhase NodeType CodeLocation
  | MultipleBeforeSuiteNodes NodeType CodeLocation NodeType CodeLocation
  | MultipleAfterSuiteNodes NodeType CodeLocation NodeType CodeLocation
  | MultipleEntryBodyFunctionsForTable CodeLocation
  | InvalidEntryDescription CodeLocation
  | TooFewParametersToTableFunction nat nat string CodeLocation
  | TooManyParametersToTableFunction nat nat string CodeLocation
  | IncorrectParameterTypeToTableFunction nat GoType GoType string CodeLocation
  | IncorrectVariadicParameterTypeToTableFunction GoType GoType string CodeLocation

definition pushSuiteNode :: "Node \<Rightarrow> 'w Suite \<Rightarrow> GinkgoError option \<times> 'w Suite" where
  "pushSuiteNode node suite =
     (if phase suite = PhaseBuildTree
      then (Some (SuiteNodeInNestedContext (NodeType node) (CodeLocation node)), suite)
      else if phase suite = PhaseRun
      then (Some (SuiteNodeDuringRunPhase (NodeType node) (CodeLocation node)), suite)
      else (let duplicate =
                  (if NodeType node = NodeTypeBeforeSuite
                        \<or> NodeType node = NodeTypeSynchronizedBeforeSuite
                   then (case WithType [NodeTypeBeforeSuite, NodeTypeSynchronizedBeforeSuite]
                                (suiteNodes suite) of
                           [] \<Rightarrow> None
                         | existing # _ \<Rightarrow>
                             Some (MultipleBeforeSuiteNodes (NodeType node) (CodeLocation node)
                                     (NodeType existing) (CodeLocation existing)))
                   else if NodeType node = NodeTypeAfterSuite
                        \<or> NodeType node = NodeTypeSynchronizedAfterSuite
                   then (case WithType [NodeTypeAfterSuite, NodeTypeSynchronizedAfterSuite]
                                (suiteNodes suite) of
                           [] \<Rightarrow> None
                         | existing # _ \<Rightarrow>
                             Some (MultipleAfterSuiteNodes (NodeType node) (CodeLocation node)
                                     (NodeType existing) (CodeLocation existing)))
                   else None)
            in case duplicate of
                 Some err \<Rightarrow> (Some err, suite)
               | None \<Rightarrow> (None, suite\<lparr>suiteNodes := suiteNodes suite @ [node]\<rparr>)))"

section \<open>The table DSL\<close>

text \<open>
  Go values as the table DSL sees them through \<open>reflect\<close>: the nil interface, a string,
  or a value of another type (a function when the type is \<open>GoFunc\<close>), named by its type
  and an identity. A function type \<open>GoFunc fixed variadic outs\<close> has the parameters
  \<open>fixed\<close>, then a variadic parameter \<open>...T\<close> when \<open>variadic = Some T\<close>, and the
  results \<open>outs\<close>.
\<close>

datatype GoValue = GoNil | GoStr string | GoVal GoType nat

text \<open>\<open>reflect.TypeOf\<close>; \<open>None\<close> is the nil type of the nil interface.\<close>

fun TypeOf :: "GoValue \<Rightarrow> GoType option" where
  "TypeOf GoNil = None"
| "TypeOf (GoStr s) = Some GoString"
| "TypeOf (GoVal t n) = Some t"

text \<open>The methods of \<open>reflect.Type\<close> that the DSL calls on a function type. Go panics
  when they are called on another type; the callers below ask them of function types only.\<close>

fun ParamTypes :: "GoType \<Rightarrow> GoType list" where
  "ParamTypes (GoFunc fixed None outs) = fixed"
| "ParamTypes (GoFunc fixed (Some t) outs) = fixed @ [GoSlice t]"
| "ParamTypes t = []"

definition NumIn :: "GoType \<Rightarrow> nat" where
  "NumIn t = length (ParamTypes t)"

fun IsVariadic :: "GoType \<Rightarrow> bool" where
  "IsVariadic (GoFunc fixed (Some t) outs) = True"
| "IsVariadic t = False"

definition In :: "GoType \<Rightarrow> nat \<Rightarrow> GoType" where
  "In t i = ParamTypes t ! i"

fun Elem :: "GoType \<Rightarrow> GoType" where
  "Elem (GoSlice t) = t"
| "Elem t = t"

fun OutTypes :: "GoType \<Rightarrow> GoType list" where
  "OutTypes (GoFunc fixed variadic outs) = outs"
| "OutTypes t = []"

fun isFunc :: "GoType \<Rightarrow> bool" where
  "isFunc (GoFunc fixed variadic outs) = True"
| "isFunc t = False"

text \<open>A \<open>reflect.Value\<close>: the zero \<open>reflect.Value\<close>, the value of a Go value, or the zero
  value of a type.\<close>

datatype ReflectValue = InvalidValue | ValueOf GoValue | Zero GoType

definition computeValue :: "GoValue \<Rightarrow> GoType \<Rightarrow> ReflectValue" where
  "computeValue parameter t = (if parameter = GoNil then Zero t else ValueOf parameter)"

text \<open>A loop over indices that returns the first error found.\<close>

fun firstError :: "(nat \<Rightarrow> GinkgoError option) \<Rightarrow> nat list \<Rightarrow> GinkgoError option" where
  "firstError check [] = None"
| "firstError check (i # is) =
     (case check i of Some err \<Rightarrow> Some err | None \<Rightarrow> firstError check is)"

text \<open>
  \<open>validateParameters\<close>. \<open>assignable actual expected\<close> is \<open>actual.AssignableTo(expected)\<close>
  of Go's \<open>reflect\<close>. The result is \<open>Inl\<close> when the function panics (\<open>NumIn\<close> of the nil
  type or of a type that is no function), else the error returned, \<open>None\<close> for nil.
\<close>

definition validateParameters ::
  "(GoType \<Rightarrow> GoType \<Rightarrow> bool) \<Rightarrow> GoValue \<Rightarrow> GoValue list \<Rightarrow> string \<Rightarrow> CodeLocation
    \<Rightarrow> string + GinkgoError option" where
  "validateParameters assignable function parameters kind cl =
     (case TypeOf function of
        None \<Rightarrow> Inl ''invalid memory address or nil pointer dereference''
      | Some funcType \<Rightarrow>
         (if \<not> isFunc funcType then Inl ''reflect: NumIn of non-func type''
          else (let limit = (if IsVariadic funcType then NumIn funcType - 1 else NumIn funcType)
                in if length parameters < limit
                   then Inr (Some (TooFewParametersToTableFunction limit (length parameters) kind cl))
                   else if length parameters > limit \<and> \<not> IsVariadic funcType
                   then Inr (Some (TooManyParametersToTableFunction limit (length parameters) kind cl))
                   else (case firstError
                                (\<lambda>i. case TypeOf (parameters ! i) of
                                        None \<Rightarrow> None
                                      | Some actual \<Rightarrow>
                                          (if \<not> assignable actual (In funcType i)
                                           then Some (IncorrectParameterTypeToTableFunction (i + 1)
                                                        (In funcType i) actual kind cl)
                                           else None))
                                [0..<limit] of
                           Some err \<Rightarrow> Inr (Some err)
                         | None \<Rightarrow>
                            (if IsVariadic funcType
                             then (let expected = Elem (In funcType limit)
                                   in Inr (firstError
                                        (\<lambda>i. case TypeOf (parameters ! i) of
                                                None \<Rightarrow> None
                                              | Some actual \<Rightarrow>
                                                  (if \<not> assignable actual expected
                                                   then Some
                                                     (IncorrectVariadicParameterTypeToTableFunction
                                                        expected actual kind cl)
                                                   else None))
                                        [limit..<length parameters]))
                             else Inr None)))))"

text \<open>
  \<open>invokeFunction\<close>. \<open>call function inValues\<close> is
  \<open>reflect.ValueOf(function).Call(inValues)\<close>: the results, or \<open>Inl\<close> when the call
  panics.
\<close>

definition inValuesOf :: "GoType \<Rightarrow> GoValue list \<Rightarrow> ReflectValue list" where
  "inValuesOf funcType parameters =
     (let inValues = replicate (length parameters) InvalidValue;
          limit = (if IsVariadic funcType then NumIn funcType - 1 else NumIn funcType);
          inValues1 = fold (\<lambda>i vs. vs[i := computeValue (parameters ! i) (In funcType i)])
                        [0..<min limit (length parameters)] inValues
      in if IsVariadic funcType
         then (let variadicType = Elem (In funcType limit)
               in fold (\<lambda>i vs. vs[i := computeValue (parameters ! i) variadicType])
                    [limit..<length parameters] inValues1)
         else inValues1)"

definition invokeFunction ::
  "(GoValue \<Rightarrow> ReflectValue list \<Rightarrow> string + ReflectValue list) \<Rightarrow> GoValue \<Rightarrow> GoValue list
    \<Rightarrow> string + ReflectValue list" where
  "invokeFunction call function parameters =
     (case TypeOf function of
        None \<Rightarrow> Inl ''invalid memory address or nil pointer dereference''
      | Some funcType \<Rightarrow>
         (if \<not> isFunc funcType then Inl ''reflect: NumIn of non-func type''
          else call function (inValuesOf funcType parameters)))"

record TableEntry =
  description :: GoValue
  decorations :: "GoValue list"
  parameters :: "GoValue list"
  codeLocation :: CodeLocation

text \<open>An argument of \<open>DescribeTable\<close>: a \<open>TableEntry\<close> or any other value.\<close>

datatype TableArg = EntryArg TableEntry | ValueArg GoValue

text \<open>\<open>reflect.Value.String\<close> on the first result of a call.\<close>

fun firstResultString :: "ReflectValue list \<Rightarrow> string" where
  "firstResultString (ValueOf (GoStr s) # vs) = s"
| "firstResultString (Zero GoString # vs) = []"
| "firstResultString vs = ''<invalid Value>''"

text \<open>
  The It node that the body of the table's container builds for an entry: its text, code
  location and decorations, and the closure given as its body, which holds \<open>err\<close>, the
  table's body function and the entry's parameters.
\<close>

record TableIt =
  itText :: string
  itCodeLocation :: CodeLocation
  itDecorations :: "GoValue list"
  itErr :: "GinkgoError option"
  itFunction :: GoValue
  itParameters :: "GoValue list"

text \<open>The body of the It node: \<open>Inl (Inl err)\<close> is \<open>panic(err)\<close>, \<open>Inl (Inr p)\<close> a panic
  of the call, \<open>Inr\<close> the results of the call.\<close>

definition runTableItBody ::
  "(GoValue \<Rightarrow> ReflectValue list \<Rightarrow> string + ReflectValue list) \<Rightarrow> TableIt
    \<Rightarrow> (GinkgoError + string) + ReflectValue list" where
  "runTableItBody call it =
     (case itErr it of
        Some err \<Rightarrow> Inl (Inl err)
      | None \<Rightarrow>
         (case invokeFunction call (itFunction it) (itParameters it) of
            Inl p \<Rightarrow> Inl (Inr p)
          | Inr results \<Rightarrow> Inr results))"

text \<open>The switch on the entry's description: the error and the description, or \<open>Inl\<close>
  for a panic (\<open>Kind\<close> of the nil type, or a panic of the description function).\<close>

definition describeEntry ::
  "(GoType \<Rightarrow> GoType \<Rightarrow> bool) \<Rightarrow> (GoValue \<Rightarrow> ReflectValue list \<Rightarrow> string + ReflectValue list)
    \<Rightarrow> TableEntry \<Rightarrow> string + (GinkgoError option \<times> string)" where
  "describeEntry assignable call entry =
     (case TypeOf (description entry) of
        None \<Rightarrow> Inl ''invalid memory address or nil pointer dereference''
      | Some t \<Rightarrow>
         (if t = GoString
          then Inr (None, (case description entry of GoStr s \<Rightarrow> s | _ \<Rightarrow> []))
          else if isFunc t \<and> length (OutTypes t) = 1 \<and> OutTypes t ! 0 = GoString
          then (case validateParameters assignable (description entry) (parameters entry)
                       ''Entry Description function'' (codeLocation entry) of
                  Inl p \<Rightarrow> Inl p
                | Inr (Some err) \<Rightarrow> Inr (Some err, [])
                | Inr None \<Rightarrow>
                   (case invokeFunction call (description entry) (parameters entry) of
                      Inl p \<Rightarrow> Inl p
                    | Inr results \<Rightarrow> Inr (None, firstResultString results)))
          else Inr (Some (InvalidEntryDescription (codeLocation entry)), [])))"

text \<open>One pass of the loop over the entries in the body of the table's container: the It
  node handed to \<open>pushNode\<close>, or \<open>Inl\<close> for a panic.\<close>

definition entryNode ::
  "(GoType \<Rightarrow> GoType \<Rightarrow> bool) \<Rightarrow> (GoValue \<Rightarrow> ReflectValue list \<Rightarrow> string + ReflectValue list)
    \<Rightarrow> GoValue \<Rightarrow> TableEntry \<Rightarrow> string + TableIt" where
  "entryNode assignable call itBody entry =
     (case describeEntry assignable call entry of
        Inl p \<Rightarrow> Inl p
      | Inr (err, text) \<Rightarrow>
         (case (if err = None
                then validateParameters assignable itBody (parameters entry)
                       ''Table Body function'' (codeLocation entry)
                else Inr err) of
            Inl p \<Rightarrow> Inl p
          | Inr err1 \<Rightarrow>
              Inr \<lparr> itText = text, itCodeLocation = codeLocation entry,
                    itDecorations = decorations entry, itErr = err1, itFunction = itBody,
                    itParameters = parameters entry \<rparr>))"

text \<open>The body of the table's container: the It nodes pushed, and the panic that ended
  the loop, if any.\<close>

fun tableBody ::
  "(GoType \<Rightarrow> GoType \<Rightarrow> bool) \<Rightarrow> (GoValue \<Rightarrow> ReflectValue list \<Rightarrow> string + ReflectValue list)
    \<Rightarrow> GoValue \<Rightarrow> TableEntry list \<Rightarrow> TableIt list \<times> string option" where
  "tableBody assignable call itBody [] = ([], None)"
| "tableBody assignable call itBody (entry # entries) =
     (case entryNode assignable call itBody entry of
        Inl p \<Rightarrow> ([], Some p)
      | Inr it \<Rightarrow>
          (let (its, p) = tableBody assignable call itBody entries in (it # its, p)))"

text \<open>
  The container node that \<open>generateTable\<close> hands to \<open>pushNode\<close>: its text, code
  location, the arguments passed on to \<open>NewNode\<close>, and what its body closure holds, the
  entries and the body function (\<open>GoNil\<close> when there is none).
\<close>

record Table =
  tableText :: string
  tableCodeLocation :: CodeLocation
  tableContainerNodeArgs :: "GoValue list"
  tableEntries :: "TableEntry list"
  tableItBody :: GoValue

datatype Abort = Exit GinkgoError | Panic string

text \<open>The loop of \<open>generateTable\<close> over the arguments. \<open>exitIfErr\<close> ends the program
  on a second body function; \<open>Kind\<close> of the nil type panics.\<close>

fun sortArgs :: "CodeLocation \<Rightarrow> TableArg list \<Rightarrow> Table \<Rightarrow> Abort + Table" where
  "sortArgs cl [] table = Inr table"
| "sortArgs cl (EntryArg entry # args) table =
     sortArgs cl args (table\<lparr>tableEntries := tableEntries table @ [entry]\<rparr>)"
| "sortArgs cl (ValueArg arg # args) table =
     (case TypeOf arg of
        None \<Rightarrow> Inl (Panic ''invalid memory address or nil pointer dereference'')
      | Some t \<Rightarrow>
         (if isFunc t
          then (if tableItBody table \<noteq> GoNil
                then Inl (Exit (MultipleEntryBodyFunctionsForTable cl))
                else sortArgs cl args (table\<lparr>tableItBody := arg\<rparr>))
          else sortArgs cl args
                 (table\<lparr>tableContainerNodeArgs := tableContainerNodeArgs table @ [arg]\<rparr>)))"

text \<open>\<open>generateTable\<close>, with the code location \<open>cl\<close> of the caller of
  \<open>DescribeTable\<close>. \<open>NewNode\<close> and \<open>pushNode\<close> are not in the sources: the result is the
  container handed to them.\<close>

definition generateTable :: "CodeLocation \<Rightarrow> string \<Rightarrow> TableArg list \<Rightarrow> Abort + Table" where
  "generateTable cl text args =
     sortArgs cl args
       \<lparr> tableText = text, tableCodeLocation = cl, tableContainerNodeArgs = [],
         tableEntries = [], tableItBody = GoNil \<rparr>"

text \<open>\<open>Entry\<close>: \<open>internal.PartitionDecorations\<close> is not in the sources, the partition
  of the arguments into decorations and parameters is given.\<close>

definition Entry :: "CodeLocation \<Rightarrow> GoValue \<Rightarrow> GoValue list \<Rightarrow> GoValue list \<Rightarrow> TableEntry" where
  "Entry cl descr decos params =
     \<lparr> description = descr, decorations = decos, parameters = params, codeLocation = cl \<rparr>"

text \<open>The code location an error refers to: the last argument of its constructor.\<close>

fun errorCodeLocation :: "GinkgoError \<Rightarrow> CodeLocation" where
  "errorCodeLocation (SuiteNodeInNestedContext t cl) = cl"
| "errorCodeLocation (SuiteNodeDuringRunPhase t cl) = cl"
| "errorCodeLocation (MultipleBeforeSuiteNodes t cl t0 cl0) = cl"
| "errorCodeLocation (MultipleAfterSuiteNodes t cl t0 cl0) = cl"
| "errorCodeLocation (MultipleEntryBodyFunctionsForTable cl) = cl"
| "errorCodeLocation (InvalidEntryDescription cl) = cl"
| "errorCodeLocation (TooFewParametersToTableFunction n m kind cl) = cl"
| "errorCodeLocation (TooManyParametersToTableFunction n m kind cl) = cl"
| "errorCodeLocation (IncorrectParameterTypeToTableFunction n e a kind cl) = cl"
| "errorCodeLocation (IncorrectVariadicParameterTypeToTableFunction e a kind cl) = cl"

text \<open>The errors that report parameters which do not fit a function.\<close>

fun isParameterError :: "GinkgoError \<Rightarrow> bool" where
  "isParameterError (TooFewParametersToTableFunction n m kind cl) = True"
| "isParameterError (TooManyParametersToTableFunction n m kind cl) = True"
| "isParameterError (IncorrectParameterTypeToTableFunction n e a kind cl) = True"
| "isParameterError (IncorrectVariadicParameterTypeToTableFunction e a kind cl) = True"
| "isParameterError err = False"

text \<open>
  The parameters of an entry do not fit a function type, in the words of the claim: too
  few or too many of them, or one that is not nil and whose type is not assignable to the
  type of the parameter it is passed for.
\<close>

definition expectedType :: "GoType \<Rightarrow> nat \<Rightarrow> GoType" where
  "expectedType funcType i =
     (case funcType of
        GoFunc fixed variadic outs \<Rightarrow>
          (if i < length fixed then fixed ! i
           else (case variadic of Some t \<Rightarrow> t | None \<Rightarrow> GoNamed []))
      | _ \<Rightarrow> GoNamed [])"

definition parametersMismatch ::
  "(GoType \<Rightarrow> GoType \<Rightarrow> bool) \<Rightarrow> GoType \<Rightarrow> GoValue list \<Rightarrow> bool" where
  "parametersMismatch assignable funcType params =
     (case funcType of
        GoFunc fixed variadic outs \<Rightarrow>
          length params < length fixed
          \<or> (length params > length fixed \<and> variadic = None)
          \<or> list_ex (\<lambda>i. case TypeOf (params ! i) of
                           None \<Rightarrow> False
                         | Some actual \<Rightarrow> \<not> assignable actual (expectedType funcType i))
               [0..<length params]
      | _ \<Rightarrow> False)"

section \<open>The synchronized before-suite hook on two workers\<close>

text \<open>
  The hook on the primary worker, then on another worker whose client reads the
  coordination service as the primary left it (the other worker blocks until then). The
  result is \<open>None\<close> when the primary blocks; the second component is \<open>None\<close> when the
  other worker blocks for ever.
\<close>

definition otherWorkerAfterPrimary ::
  "'a Env \<Rightarrow> SuiteConfig \<Rightarrow> nat option \<Rightarrow> 'a Suite \<Rightarrow> 'b Env \<Rightarrow> SuiteConfig \<Rightarrow> nat option
    \<Rightarrow> 'b Suite \<Rightarrow> Node \<Rightarrow> ('a Suite \<times> 'b Suite option) option" where
  "otherWorkerAfterPrimary env1 cfg1 ch1 suite1 env2 cfg2 ch2 suite2 node =
     (case runSuiteNode env1 cfg1 node ch1 suite1 of
        None \<Rightarrow> None
      | Some after1 \<Rightarrow>
          Some (after1, runSuiteNode env2 cfg2 node ch2 (suite2\<lparr>server := server after1\<rparr>)))"

text \<open>The produce step of the primary inside \<open>runSuiteNode\<close>: the state that \<open>runNode\<close>
  returns for it, the data its body returned, and the error of the broadcast of that data.\<close>

definition producedState :: "'w Env \<Rightarrow> SuiteConfig \<Rightarrow> Node \<Rightarrow> nat option \<Rightarrow> 'w Suite \<Rightarrow> SpecState" where
  "producedState env cfg node ch suite =
     fst (fst (runNode env cfg node SynchronizedBeforeSuiteNode1Body ch []
                 (suite\<lparr>writer := [], world := StartInterceptingOutput env (world suite)\<rparr>)))"

definition producedData :: "'w Env \<Rightarrow> Node \<Rightarrow> nat option \<Rightarrow> 'w Suite \<Rightarrow> string" where
  "producedData env node ch suite =
     returned (fst (execBody env node SynchronizedBeforeSuiteNode1Body ch
                      (StartInterceptingOutput env (world suite))))"

definition broadcastError :: "'w Env \<Rightarrow> Node \<Rightarrow> nat option \<Rightarrow> 'w Suite \<Rightarrow> string option" where
  "broadcastError env node ch suite =
     fst (transportError env
            (PostSynchronizedBeforeSuiteSucceeded (producedData env node ch suite))
            (snd (execBody env node SynchronizedBeforeSuiteNode1Body ch
                    (StartInterceptingOutput env (world suite)))))"

section \<open>The bodies started during a run\<close>

text \<open>What no step of a run undoes: the phase and the suite nodes stay as they are, and
  the bodies started and the goroutines left behind are only added to.\<close>

definition keeps :: "'w Suite \<Rightarrow> 'w Suite \<Rightarrow> bool" where
  "keeps suite after \<longleftrightarrow>
     phase after = phase suite \<and> suiteNodes after = suiteNodes suite
     \<and> prefix (invoked suite) (invoked after) \<and> prefix (abandoned suite) (abandoned after)"

text \<open>A body started as the closure that \<open>reportAfterEach\<close> builds.\<close>

fun isReportAfterEachCall :: "Node \<times> BodyKind \<Rightarrow> bool" where
  "isReportAfterEachCall (node, ReportAfterEachBody report) = True"
| "isReportAfterEachCall (node, body) = False"

text \<open>The body that \<open>runSuiteNode\<close> starts first for an after-suite node.\<close>

definition afterSuiteBody :: "Node \<Rightarrow> BodyKind" where
  "afterSuiteBody node =
     (if NodeType node = NodeTypeAfterSuite then Body else SynchronizedAfterSuiteAllNodesBody)"

section \<open>Example runs\<close>

text \<open>
  An environment for the examples: the world counts the bodies started, \<open>script\<close> gives
  the run of a body from the node, the closure and that count; there is no interrupt, no
  transport error, and the failure states are Failed, Aborted and Interrupted.
\<close>

definition scriptedEnv :: "(Node \<Rightarrow> BodyKind \<Rightarrow> nat \<Rightarrow> BodyRun) \<Rightarrow> nat Env" where
  "scriptedEnv script =
     \<lparr> execBody = (\<lambda>node body ch w. (script node body w, Suc w)),
       interruptHandlerStatus = (\<lambda>w. (\<lparr> Interrupted = False, Channel = 0, Cause = [] \<rparr>, w)),
       InterruptMessageWithStackTraces = (\<lambda>w. ''interrupted''),
       SetInterruptPlaceholderMessage = (\<lambda>t cl w. w),
       ClearInterruptPlaceholderMessage = (\<lambda>w. w),
       StartInterceptingOutput = (\<lambda>w. w),
       StopInterceptingAndReturnOutput = (\<lambda>w. ([], w)),
       notify = (\<lambda>n w. w),
       transportError = (\<lambda>c w. (None, w)),
       BlockUntilNonprimaryNodesHaveFinished = (\<lambda>w. (None, w)),
       BlockUntilAggregatedNonprimaryNodesReport = (\<lambda>w. (Inl ''no report'', w)),
       FetchNextCounter = (\<lambda>w. (Inr 0, w)),
       SpecStateFailureStates = [SpecStateFailed, SpecStateAborted, SpecStateInterrupted],
       BestTextFor = (\<lambda>nodes node. Text node),
       NodeTypeString = (\<lambda>t. []),
       CodeLocationString = (\<lambda>cl. fst cl) \<rparr>"

definition exampleNode :: "nat \<Rightarrow> NodeType \<Rightarrow> int \<Rightarrow> Node" where
  "exampleNode n t level =
     \<lparr> ID = n, NodeType = t, Text = ''node'', CodeLocation = (''a_test.go'', int n),
       NestingLevel = level, MarkedPending = False \<rparr>"

definition exampleSuite :: "nat Suite" where
  "exampleSuite =
     \<lparr> phase = PhaseRun, suiteNodes = [], writer = [], currentSpecReport = zeroSpecReport,
       server = BeforeSuitePending, world = 0, invoked = [], abandoned = [], bodyData = [] \<rparr>"

definition exampleConfig :: SuiteConfig where
  "exampleConfig =
     \<lparr> DryRun = False, FailFast = False, FailOnPending = False, FlakeAttempts = 0,
       EmitSpecProgress = False, ParallelNode = 1, ParallelTotal = 1 \<rparr>"

definition passedRun :: BodyRun where
  "passedRun = \<lparr> outcome = SpecStatePassed, failureFromRun = zeroFailure, written = ''out'',
     returned = ''data'', interruptFirst = False, writtenBeforeInterrupt = ''o'' \<rparr>"



text \<open>A body during which the interrupt fires before its outcome is delivered.\<close>

definition interruptedScript :: "Node \<Rightarrow> BodyKind \<Rightarrow> nat \<Rightarrow> BodyRun" where
  "interruptedScript node body w = passedRun\<lparr>interruptFirst := True\<rparr>"

text \<open>A spec in state Passed with one ReportAfterEach hook.\<close>

definition reportedSpec :: Spec where
  "reportedSpec = \<lparr> Nodes = [exampleNode 1 NodeTypeIt 1, exampleNode 7 NodeTypeReportAfterEach 0],
     Skip = False, SpecFlakeAttempts = 0 \<rparr>"

definition passedSuite :: "nat Suite" where
  "passedSuite = exampleSuite\<lparr>currentSpecReport := zeroSpecReport\<lparr>State := SpecStatePassed\<rparr>\<rparr>"

text \<open>Bodies that all pass, and two of three workers.\<close>

definition passingScript :: "Node \<Rightarrow> BodyKind \<Rightarrow> nat \<Rightarrow> BodyRun" where
  "passingScript node body w = passedRun"

definition synchronizedNode :: Node where
  "synchronizedNode = exampleNode 1 NodeTypeSynchronizedBeforeSuite 0"

definition primaryConfig :: SuiteConfig where
  "primaryConfig = exampleConfig\<lparr>ParallelNode := 1, ParallelTotal := 3\<rparr>"

definition secondConfig :: SuiteConfig where
  "secondConfig = exampleConfig\<lparr>ParallelNode := 2, ParallelTotal := 3\<rparr>"

section \<open>What a node run leaves unchanged\<close>

lemma runNode_invoked:
  "invoked (snd (runNode env cfg node body ch text s)) = invoked s @ [(node, body)]"
  by (simp add: runNode_def Let_def split_def)

lemma runNode_currentSpecReport:
  "currentSpecReport (snd (runNode env cfg node body ch text s)) = currentSpecReport s"
  by (simp add: runNode_def Let_def split_def)

lemma getStatus_invoked: "invoked (snd (getStatus env s)) = invoked s"
  by (simp add: getStatus_def split_def Let_def)

lemma getStatus_currentSpecReport:
  "currentSpecReport (snd (getStatus env s)) = currentSpecReport s"
  by (simp add: getStatus_def split_def Let_def)

section \<open>The scope of the clean-up\<close>

lemma runSetupNodes_invoked:
  "\<exists>executed rest. nodes = executed @ rest \<and>
     invoked (snd (runSetupNodes env cfg spec ch nodes d s))
       = invoked s @ map (\<lambda>n. (n, Body)) executed \<and>
     fst (runSetupNodes env cfg spec ch nodes d s) = fold max (map NestingLevel executed) d"
proof (induction nodes arbitrary: d s)
  case Nil
  show ?case by simp
next
  case (Cons node nodes)
  let ?r = "runNode env cfg node Body ch (BestTextFor env (Nodes spec) node) s"
  let ?s2 = "(snd ?r)\<lparr>currentSpecReport :=
               (currentSpecReport (snd ?r))\<lparr>State := fst (fst ?r), Failure := snd (fst ?r)\<rparr>\<rparr>"
  let ?d = "max d (NestingLevel node)"
  show ?case
  proof (cases "fst (fst ?r) = SpecStatePassed")
    case False
    then have "runSetupNodes env cfg spec ch (node # nodes) d s = (?d, ?s2)"
      by (simp add: Let_def split_def)
    then show ?thesis
      by (intro exI[of _ "[node]"] exI[of _ nodes]) (simp add: runNode_invoked)
  next
    case True
    then have eq: "runSetupNodes env cfg spec ch (node # nodes) d s
        = runSetupNodes env cfg spec ch nodes ?d ?s2"
      by (simp add: Let_def split_def)
    from Cons.IH[of ?d ?s2] obtain executed rest where
      h: "nodes = executed @ rest"
         "invoked (snd (runSetupNodes env cfg spec ch nodes ?d ?s2))
            = invoked ?s2 @ map (\<lambda>n. (n, Body)) executed"
         "fst (runSetupNodes env cfg spec ch nodes ?d ?s2)
            = fold max (map NestingLevel executed) ?d"
      by blast
    have "node # nodes = (node # executed) @ rest"
      using h(1) by simp
    moreover have "invoked (snd (runSetupNodes env cfg spec ch (node # nodes) d s))
        = invoked s @ map (\<lambda>n. (n, Body)) (node # executed)"
      unfolding eq h(2) by (simp add: runNode_invoked)
    moreover have "fst (runSetupNodes env cfg spec ch (node # nodes) d s)
        = fold max (map NestingLevel (node # executed)) d"
      unfolding eq h(3) by (simp add: max.commute)
    ultimately show ?thesis by blast
  qed
qed

lemma runCleanUpNode_invoked:
  "invoked (runCleanUpNode env cfg spec node s) = invoked s @ [(node, Body)]"
  by (simp add: runCleanUpNode_def Let_def split_def runNode_invoked getStatus_invoked)

lemma runCleanUpNodes_invoked:
  "invoked (runCleanUpNodes env cfg spec nodes s) = invoked s @ map (\<lambda>n. (n, Body)) nodes"
  by (induction nodes arbitrary: s) (simp_all add: runCleanUpNode_invoked)

lemma fold_max_Max:
  "fold max (map f xs) (d::int) = Max (insert d (f ` set xs))"
proof -
  have "Max (set (d # map f xs)) = fold max (map f xs) d"
    by (rule Max.set_eq_fold)
  then show ?thesis by simp
qed

lemma SortedByDescendingNestingLevel_descending:
  "sorted_wrt (\<lambda>a b. NestingLevel b \<le> NestingLevel a) (SortedByDescendingNestingLevel ns)"
proof -
  have "sorted (map (\<lambda>n. - NestingLevel n) (sort_key (\<lambda>n. - NestingLevel n) ns))"
    by (rule sorted_sort_key)
  then show ?thesis
    by (simp add: SortedByDescendingNestingLevel_def sorted_map)
qed

text \<open>
  C1. In one attempt of a spec, the bodies started are those of a prefix \<open>executed\<close> of the
  BeforeEach, JustBeforeEach and It nodes, followed by exactly the JustAfterEach nodes and
  then the AfterEach nodes, each group by descending nesting level, whose nesting level is
  at most the deepest nesting level of \<open>executed\<close> (\<open>-1\<close> when nothing was executed); so
  no clean-up node deeper than that level is started.
\<close>

theorem cleanup_scoping:
  "\<exists>executed rest.
     setupNodes spec = executed @ rest \<and>
     invoked (runAttempt env suiteConfig spec attempt suite) =
       invoked suite @ map (\<lambda>n. (n, Body)) executed
        @ map (\<lambda>n. (n, Body))
           (filter (\<lambda>n. NestingLevel n \<le> Max (insert (- 1) (NestingLevel ` set executed)))
              (SortedByDescendingNestingLevel (WithType [NodeTypeJustAfterEach] (Nodes spec))
               @ SortedByDescendingNestingLevel (WithType [NodeTypeAfterEach] (Nodes spec)))) \<and>
     sorted_wrt (\<lambda>a b. NestingLevel b \<le> NestingLevel a)
       (SortedByDescendingNestingLevel (WithType [NodeTypeJustAfterEach] (Nodes spec))) \<and>
     sorted_wrt (\<lambda>a b. NestingLevel b \<le> NestingLevel a)
       (SortedByDescendingNestingLevel (WithType [NodeTypeAfterEach] (Nodes spec)))"
proof -
  let ?s1 = "suite\<lparr>currentSpecReport :=
               (currentSpecReport suite)\<lparr>NumAttempts := attempt + 1\<rparr>\<rparr>"
  let ?s2 = "(if attempt > 0 then ?s1\<lparr>writer := writer ?s1 @ retryNotice attempt\<rparr> else ?s1)"
  let ?st = "getStatus env ?s2"
  let ?ch = "Some (Channel (fst ?st))"
  let ?ran = "runSetupNodes env suiteConfig spec ?ch (setupNodes spec) (- 1) (snd ?st)"
  obtain executed rest where
    h: "setupNodes spec = executed @ rest"
       "invoked (snd ?ran) = invoked (snd ?st) @ map (\<lambda>n. (n, Body)) executed"
       "fst ?ran = fold max (map NestingLevel executed) (- 1)"
    using runSetupNodes_invoked[of "setupNodes spec" env suiteConfig spec ?ch "- 1" "snd ?st"]
    by blast
  have inv0: "invoked (snd ?st) = invoked suite"
    by (simp add: getStatus_invoked)
  have "invoked (runAttempt env suiteConfig spec attempt suite)
      = invoked (runCleanUpNodes env suiteConfig spec (cleanUpNodes spec (fst ?ran))
                   (snd ?ran))"
    by (simp add: runAttempt_def Let_def split_def)
  also have "\<dots> = invoked suite @ map (\<lambda>n. (n, Body)) executed
        @ map (\<lambda>n. (n, Body)) (cleanUpNodes spec (fst ?ran))"
    by (simp add: runCleanUpNodes_invoked h(2) inv0)
  finally show ?thesis
    using h(1) h(3)
    by (intro exI[of _ executed] exI[of _ rest])
       (simp add: cleanUpNodes_def WithinNestingLevel_def fold_max_Max
          SortedByDescendingNestingLevel_descending)
qed

section \<open>Folding an outcome into the spec report\<close>

text \<open>
  C2. When the outcome \<open>(state, failure)\<close> of a clean-up node, or of a ReportAfterEach
  hook, is folded into the current spec report, the state and failure of the report become
  \<open>(state, failure)\<close> if the recorded state was Passed or \<open>state\<close> is Aborted, and stay
  what they were in every other case.
\<close>

theorem outcome_folding:
  "(let (status, suite0) = getStatus env suite;
        ((state, failure), suite1) =
           runNode env suiteConfig node Body (Some (Channel status))
             (BestTextFor env (Nodes spec) node) suite0;
        after = currentSpecReport (runCleanUpNode env suiteConfig spec node suite)
    in (State after, Failure after) =
         (if State (currentSpecReport suite) = SpecStatePassed \<or> state = SpecStateAborted
          then (state, failure)
          else (State (currentSpecReport suite), Failure (currentSpecReport suite))))
   \<and>
   (let suite0 = suite\<lparr>writer := [],
                   world := SetInterruptPlaceholderMessage env (NodeType node)
                              (CodeLocation node) (StartInterceptingOutput env (world suite))\<rparr>;
        ((state, failure), suite1) =
           runNode env suiteConfig node (ReportAfterEachBody (currentSpecReport suite)) None
             (BestTextFor env (Nodes spec) node) suite0;
        after = currentSpecReport (runReportAfterEachNode env suiteConfig spec node suite)
    in (State after, Failure after) =
         (if State (currentSpecReport suite) = SpecStatePassed \<or> state = SpecStateAborted
          then (state, failure)
          else (State (currentSpecReport suite), Failure (currentSpecReport suite))))"
proof (intro conjI)
  show "(let (status, suite0) = getStatus env suite;
        ((state, failure), suite1) =
           runNode env suiteConfig node Body (Some (Channel status))
             (BestTextFor env (Nodes spec) node) suite0;
        after = currentSpecReport (runCleanUpNode env suiteConfig spec node suite)
    in (State after, Failure after) =
         (if State (currentSpecReport suite) = SpecStatePassed \<or> state = SpecStateAborted
          then (state, failure)
          else (State (currentSpecReport suite), Failure (currentSpecReport suite))))"
    by (simp add: runCleanUpNode_def Let_def split_def runNode_currentSpecReport
          getStatus_currentSpecReport)
next
  show "(let suite0 = suite\<lparr>writer := [],
                   world := SetInterruptPlaceholderMessage env (NodeType node)
                              (CodeLocation node) (StartInterceptingOutput env (world suite))\<rparr>;
        ((state, failure), suite1) =
           runNode env suiteConfig node (ReportAfterEachBody (currentSpecReport suite)) None
             (BestTextFor env (Nodes spec) node) suite0;
        after = currentSpecReport (runReportAfterEachNode env suiteConfig spec node suite)
    in (State after, Failure after) =
         (if State (currentSpecReport suite) = SpecStatePassed \<or> state = SpecStateAborted
          then (state, failure)
          else (State (currentSpecReport suite), Failure (currentSpecReport suite))))"
    by (simp add: runReportAfterEachNode_def Let_def split_def runNode_currentSpecReport)
qed

section \<open>Retrying a spec\<close>
















section \<open>What a run never undoes\<close>

lemma keeps_refl: "keeps s s"
  by (simp add: keeps_def)

lemma keeps_trans: "keeps a b \<Longrightarrow> keeps b c \<Longrightarrow> keeps a c"
  by (auto simp: keeps_def intro: prefix_order.trans)

lemma keeps_updates:
  "keeps s (t\<lparr>writer := x1\<rparr>) = keeps s t"
  "keeps s (t\<lparr>currentSpecReport := x2\<rparr>) = keeps s t"
  "keeps s (t\<lparr>world := x3\<rparr>) = keeps s t"
  "keeps s (t\<lparr>server := x4\<rparr>) = keeps s t"
  "keeps s (t\<lparr>bodyData := x5\<rparr>) = keeps s t"
  "keeps (s\<lparr>writer := x1\<rparr>) t = keeps s t"
  "keeps (s\<lparr>currentSpecReport := x2\<rparr>) t = keeps s t"
  "keeps (s\<lparr>world := x3\<rparr>) t = keeps s t"
  "keeps (s\<lparr>server := x4\<rparr>) t = keeps s t"
  "keeps (s\<lparr>bodyData := x5\<rparr>) t = keeps s t"
  by (simp_all add: keeps_def)

lemma runNode_keeps: "keeps s (snd (runNode env cfg node body ch text s))"
  by (simp add: runNode_def Let_def split_def keeps_def)

lemma getStatus_keeps: "keeps s (snd (getStatus env s))"
  by (simp add: getStatus_def Let_def split_def keeps_def)

lemma runSetupNodes_keeps: "keeps s (snd (runSetupNodes env cfg spec ch nodes d s))"
proof (induction nodes arbitrary: d s)
  case Nil
  show ?case by (simp add: keeps_refl)
next
  case (Cons node nodes)
  let ?r = "runNode env cfg node Body ch (BestTextFor env (Nodes spec) node) s"
  let ?s2 = "(snd ?r)\<lparr>currentSpecReport :=
               (currentSpecReport (snd ?r))\<lparr>State := fst (fst ?r), Failure := snd (fst ?r)\<rparr>\<rparr>"
  have k: "keeps s ?s2" by (simp add: keeps_updates runNode_keeps)
  have k2: "keeps s (snd (runSetupNodes env cfg spec ch nodes (max d (NestingLevel node)) ?s2))"
    using keeps_trans[OF k Cons.IH] .
  show ?case
  proof (cases "fst (fst ?r) = SpecStatePassed")
    case False
    then have eq: "runSetupNodes env cfg spec ch (node # nodes) d s
        = (max d (NestingLevel node), ?s2)"
      by (simp add: Let_def split_def)
    show ?thesis unfolding eq using k by simp
  next
    case True
    then have eq: "runSetupNodes env cfg spec ch (node # nodes) d s
        = runSetupNodes env cfg spec ch nodes (max d (NestingLevel node)) ?s2"
      by (simp add: Let_def split_def)
    show ?thesis unfolding eq by (rule k2)
  qed
qed

lemma runCleanUpNode_keeps: "keeps s (runCleanUpNode env cfg spec node s)"
proof -
  have "keeps s (snd (runNode env cfg node Body (Some (Channel (fst (getStatus env s))))
       (BestTextFor env (Nodes spec) node) (snd (getStatus env s))))"
    using keeps_trans[OF getStatus_keeps runNode_keeps] .
  then show ?thesis
    by (simp add: runCleanUpNode_def Let_def split_def keeps_updates)
qed

lemma runCleanUpNodes_keeps: "keeps s (runCleanUpNodes env cfg spec nodes s)"
proof (induction nodes arbitrary: s)
  case Nil
  show ?case by (simp add: keeps_refl)
next
  case (Cons node nodes)
  show ?case using keeps_trans[OF runCleanUpNode_keeps Cons.IH] by simp
qed

lemma runAttempt_keeps: "keeps s (runAttempt env cfg spec attempt s)"
proof -
  let ?s1 = "s\<lparr>currentSpecReport := (currentSpecReport s)\<lparr>NumAttempts := attempt + 1\<rparr>\<rparr>"
  let ?s2 = "(if attempt > 0 then ?s1\<lparr>writer := writer ?s1 @ retryNotice attempt\<rparr> else ?s1)"
  let ?st = "getStatus env ?s2"
  let ?ran = "runSetupNodes env cfg spec (Some (Channel (fst ?st))) (setupNodes spec) (- 1) (snd ?st)"
  have k2: "keeps s ?s2" by (simp add: keeps_updates keeps_refl)
  have "keeps s (runCleanUpNodes env cfg spec (cleanUpNodes spec (fst ?ran)) (snd ?ran))"
    using keeps_trans[OF keeps_trans[OF keeps_trans[OF k2 getStatus_keeps] runSetupNodes_keeps]
        runCleanUpNodes_keeps] .
  then show ?thesis
    by (simp add: runAttempt_def Let_def split_def keeps_updates)
qed

lemma attemptLoop_invariant:
  assumes step: "\<And>a s. P s \<Longrightarrow> P (runAttempt env cfg spec a s)"
    and status: "\<And>s. P s \<Longrightarrow> P (snd (getStatus env s))"
    and start: "P s"
  shows "P (attemptLoop env cfg spec maxAttempts attempt s)"
  using start
proof (induction "nat (maxAttempts - attempt)" arbitrary: attempt s)
  case 0
  then have "\<not> attempt < maxAttempts" by simp
  then have "attemptLoop env cfg spec maxAttempts attempt s = s"
    by (subst attemptLoop.simps) simp
  then show ?case using "0.prems" by simp
next
  case (Suc n)
  let ?s1 = "runAttempt env cfg spec attempt s"
  let ?st = "getStatus env ?s1"
  have lt: "attempt < maxAttempts" using Suc.hyps(2) by simp
  have p1: "P ?s1" using Suc.prems step by blast
  have p2: "P (snd ?st)" using p1 status by blast
  have n: "n = nat (maxAttempts - (attempt + 1))" using Suc.hyps(2) by simp
  have p3: "P (attemptLoop env cfg spec maxAttempts (attempt + 1) (snd ?st))"
    using Suc.hyps(1)[OF n p2] .
  have "attemptLoop env cfg spec maxAttempts attempt s =
      (if State (currentSpecReport ?s1) = SpecStatePassed then ?s1
       else if Interrupted (fst ?st) then snd ?st
       else attemptLoop env cfg spec maxAttempts (attempt + 1) (snd ?st))"
    using lt by (subst attemptLoop.simps) (simp add: Let_def split_def)
  then show ?case using p1 p2 p3 by simp
qed

lemma attemptLoop_keeps: "keeps s (attemptLoop env cfg spec maxAttempts attempt s)"
proof (rule attemptLoop_invariant[where P = "keeps s"])
  show "\<And>a t. keeps s t \<Longrightarrow> keeps s (runAttempt env cfg spec a t)"
    using keeps_trans[OF _ runAttempt_keeps] .
  show "\<And>t. keeps s t \<Longrightarrow> keeps s (snd (getStatus env t))"
    using keeps_trans[OF _ getStatus_keeps] .
  show "keeps s s" by (rule keeps_refl)
qed

lemma runSpec_keeps: "keeps s (runSpec env cfg spec s)"
proof (cases "DryRun cfg")
  case True
  then show ?thesis by (simp add: runSpec_def keeps_updates keeps_refl)
next
  case False
  have "keeps (s\<lparr>writer := [], world := StartInterceptingOutput env (world s)\<rparr>)
     (attemptLoop env cfg spec (maxAttemptsOf cfg spec) 0
        (s\<lparr>writer := [], world := StartInterceptingOutput env (world s)\<rparr>))"
    by (rule attemptLoop_keeps)
  then show ?thesis using False by (simp add: runSpec_def keeps_updates)
qed

lemma runReportAfterEachNode_keeps: "keeps s (runReportAfterEachNode env cfg spec node s)"
proof -
  let ?s0 = "s\<lparr>writer := [],
                world := SetInterruptPlaceholderMessage env (NodeType node)
                           (CodeLocation node) (StartInterceptingOutput env (world s))\<rparr>"
  have "keeps ?s0 (snd (runNode env cfg node (ReportAfterEachBody (currentSpecReport s)) None
       (BestTextFor env (Nodes spec) node) ?s0))"
    by (rule runNode_keeps)
  then show ?thesis
    by (simp add: runReportAfterEachNode_def Let_def split_def keeps_updates)
qed

lemma runReportAfterEachNodes_keeps: "keeps s (runReportAfterEachNodes env cfg spec nodes s)"
proof (induction nodes arbitrary: s)
  case Nil
  show ?case by (simp add: keeps_refl)
next
  case (Cons node nodes)
  show ?case using keeps_trans[OF runReportAfterEachNode_keeps Cons.IH] by simp
qed

lemma reportAfterEach_keeps: "keeps s (reportAfterEach env cfg spec s)"
  by (simp add: reportAfterEach_def Let_def runReportAfterEachNodes_keeps keeps_refl)

lemma processSpecReport_keeps: "keeps s (snd (processSpecReport env cfg sr (r, s)))"
  by (simp add: processSpecReport_def Let_def keeps_updates keeps_refl)

lemma setStateFailure_keeps: "keeps s (setStateFailure sf t) = keeps s t"
  by (simp add: setStateFailure_def keeps_updates)

lemma finishSuiteNode_keeps: "keeps s (finishSuiteNode env node err t) = keeps s t"
  by (simp add: finishSuiteNode_def Let_def split_def keeps_updates setStateFailure_keeps
        split: option.splits)


lemma keeps_runNode:
  "keeps s t \<Longrightarrow> keeps s (snd (runNode env cfg node body ch text t))"
  using keeps_trans[OF _ runNode_keeps] .

lemma keeps_getStatus: "keeps s t \<Longrightarrow> keeps s (snd (getStatus env t))"
  using keeps_trans[OF _ getStatus_keeps] .

lemma keeps_processSpecReport:
  "keeps s t \<Longrightarrow> keeps s (snd (processSpecReport env cfg sr (r, t)))"
  using keeps_trans[OF _ processSpecReport_keeps] .

lemma keeps_runSpec: "keeps s t \<Longrightarrow> keeps s (runSpec env cfg spec t)"
  using keeps_trans[OF _ runSpec_keeps] .

lemma keeps_reportAfterEach: "keeps s t \<Longrightarrow> keeps s (reportAfterEach env cfg spec t)"
  using keeps_trans[OF _ reportAfterEach_keeps] .

lemma clientPostSucceeded_keeps:
  "keeps s (snd (clientPostSynchronizedBeforeSuiteSucceeded env data t)) = keeps s t"
  by (simp add: clientPostSynchronizedBeforeSuiteSucceeded_def Let_def split_def keeps_updates
        split: option.splits)

lemma clientPostFailed_keeps:
  "keeps s (snd (clientPostSynchronizedBeforeSuiteFailed env t)) = keeps s t"
  by (simp add: clientPostSynchronizedBeforeSuiteFailed_def Let_def split_def keeps_updates
        split: option.splits)

lemma clientBlock_keeps_case:
  "case clientBlockUntilSynchronizedBeforeSuiteData env t of
     None \<Rightarrow> True | Some (de, t1) \<Rightarrow> keeps s t1 = keeps s t"
  by (simp add: clientBlockUntilSynchronizedBeforeSuiteData_def Let_def split_def
        keeps_updates split: option.splits BeforeSuiteState.splits)

lemma runSynchronizedBeforeSuite_keeps_case:
  "case runSynchronizedBeforeSuite env cfg node ch s of
     None \<Rightarrow> True | Some (err, after) \<Rightarrow> keeps s after"
proof (cases "ParallelNode cfg = 1")
  case True
  then show ?thesis
    by (simp add: runSynchronizedBeforeSuite_def Let_def split_def
          clientPostSucceeded_keeps clientPostFailed_keeps setStateFailure_keeps
          keeps_runNode keeps_refl)
next
  case False
  show ?thesis
  proof (cases "clientBlockUntilSynchronizedBeforeSuiteData env s")
    case None
    then show ?thesis using False
      by (simp add: runSynchronizedBeforeSuite_def)
  next
    case (Some x)
    obtain data e s1 where x: "x = ((data, e), s1)" by (cases x) auto
    have k1: "keeps s s1" using clientBlock_keeps_case[where env=env and t=s and s=s] Some x
      by (simp add: keeps_refl)
    show ?thesis
      using False Some x k1
      by (simp add: runSynchronizedBeforeSuite_def Let_def split_def
            setStateFailure_keeps keeps_runNode)
  qed
qed

lemma runSynchronizedBeforeSuite_keeps:
  assumes "runSynchronizedBeforeSuite env cfg node ch s = Some (err, after)"
  shows "keeps s after"
  using runSynchronizedBeforeSuite_keeps_case[where env=env and cfg=cfg and node=node and ch=ch and s=s] assms by simp

lemma runSynchronizedAfterSuite_keeps:
  "keeps s (snd (runSynchronizedAfterSuite env cfg node ch s))"
  by (simp add: runSynchronizedAfterSuite_def Let_def split_def setStateFailure_keeps
        keeps_updates keeps_runNode keeps_refl)

lemma keeps_runSynchronizedAfterSuite:
  "keeps s t \<Longrightarrow> keeps s (snd (runSynchronizedAfterSuite env cfg node ch t))"
  using keeps_trans[OF _ runSynchronizedAfterSuite_keeps] .

lemma runSuiteNode_keeps_case:
  "case runSuiteNode env cfg node ch s of None \<Rightarrow> True | Some after \<Rightarrow> keeps s after"
proof (cases "DryRun cfg")
  case True
  then show ?thesis
    by (simp add: runSuiteNode_def keeps_updates keeps_refl)
next
  case False
  let ?s0 = "s\<lparr>writer := [], world := StartInterceptingOutput env (world s)\<rparr>"
  have k0: "keeps s ?s0" by (simp add: keeps_updates keeps_refl)
  have c: "case runSynchronizedBeforeSuite env cfg node ch ?s0 of
     None \<Rightarrow> True | Some (err, after) \<Rightarrow> keeps s after"
    using runSynchronizedBeforeSuite_keeps_case[where env=env and cfg=cfg and node=node and ch=ch and s="?s0"] k0
    by (auto split: option.splits intro: keeps_trans)
  show ?thesis
    using False c
    by (auto simp add: runSuiteNode_def Let_def split_def finishSuiteNode_keeps
          setStateFailure_keeps keeps_updates keeps_refl keeps_runNode
          keeps_runSynchronizedAfterSuite split: option.splits)
qed

lemma runSuiteNode_keeps:
  assumes "runSuiteNode env cfg node ch s = Some after"
  shows "keeps s after"
  using runSuiteNode_keeps_case[where env=env and cfg=cfg and node=node and ch=ch and s=s] assms by simp

lemma keeps_runSuiteNode:
  "keeps s t \<Longrightarrow> runSuiteNode env cfg node ch t = Some after \<Longrightarrow> keeps s after"
  using keeps_trans[OF _ runSuiteNode_keeps] .

lemma runReportAfterSuiteNode_keeps:
  "keeps s (runReportAfterSuiteNode env cfg node report s)"
  by (auto simp add: runReportAfterSuiteNode_def Let_def split_def keeps_updates
        setStateFailure_keeps keeps_refl keeps_runNode split: sum.splits)

lemma runReportAfterSuiteNodes_keeps:
  "keeps s (snd (runReportAfterSuiteNodes env cfg nodes (r, s)))"
proof (induction nodes arbitrary: r s)
  case Nil
  show ?case by (simp add: keeps_refl)
next
  case (Cons node nodes)
  let ?s1 = "s\<lparr>currentSpecReport :=
                      zeroSpecReport\<lparr>LeafNodeType := NodeType node,
                        LeafNodeLocation := CodeLocation node, LeafNodeText := Text node,
                        GinkgoParallelNode := ParallelNode cfg\<rparr>\<rparr>"
  let ?s2 = "?s1\<lparr>world := notify env (WillRun (currentSpecReport ?s1)) (world ?s1)\<rparr>"
  let ?s3 = "runReportAfterSuiteNode env cfg node r ?s2"
  let ?p = "processSpecReport env cfg (currentSpecReport ?s3) (r, ?s3)"
  have k3: "keeps s ?s3"
    using runReportAfterSuiteNode_keeps[of ?s2 env cfg node r] by (simp add: keeps_updates)
  have k4: "keeps s (snd ?p)" using keeps_trans[OF k3 processSpecReport_keeps] .
  have "keeps s (snd (runReportAfterSuiteNodes env cfg nodes (fst ?p, snd ?p)))"
    using keeps_trans[OF k4 Cons.IH] .
  then show ?case by (simp add: Let_def)
qed

lemma runSpecsIteration_keeps:
  "keeps s (snd (snd (runSpecsIteration env cfg spec (r, ab, s))))"
  by (simp add: runSpecsIteration_def Let_def split_def keeps_updates keeps_refl
        keeps_getStatus keeps_runSpec keeps_reportAfterEach keeps_processSpecReport)

lemma nextIndex_ge:
  "fst (nextIndex env cfg counter w) = Inr idx \<Longrightarrow> counter \<le> idx"
  by (auto simp: nextIndex_def split: if_splits prod.splits sum.splits)

lemma runSpecsLoop_invariant:
  assumes step: "\<And>i st w. i < length specs \<Longrightarrow> P st \<Longrightarrow>
        P (runSpecsIteration env cfg (specs ! i) (fst st, fst (snd st), (snd (snd st))\<lparr>world := w\<rparr>))"
    and stop: "\<And>st w. P st \<Longrightarrow> P (fst st, fst (snd st), (snd (snd st))\<lparr>world := w\<rparr>)"
    and failed: "\<And>st w err. P st \<Longrightarrow>
        P ((fst st)\<lparr>SpecialSuiteFailureReasons := SpecialSuiteFailureReasons (fst st)
                @ [''Failed to iterate over specs:'' @ [newline] @ err],
              SuiteSucceeded := False\<rparr>,
           fst (snd st), (snd (snd st))\<lparr>world := w\<rparr>)"
    and start: "P st"
  shows "P (runSpecsLoop env cfg specs counter st)"
  using start
proof (induction "length specs - counter" arbitrary: counter st rule: less_induct)
  case less
  let ?n = "nextIndex env cfg counter (world (snd (snd st)))"
  show ?case
  proof (cases "fst ?n")
    case (Inl err)
    then have "runSpecsLoop env cfg specs counter st =
        ((fst st)\<lparr>SpecialSuiteFailureReasons := SpecialSuiteFailureReasons (fst st)
                @ [''Failed to iterate over specs:'' @ [newline] @ err],
              SuiteSucceeded := False\<rparr>,
           fst (snd st), (snd (snd st))\<lparr>world := snd ?n\<rparr>)"
      by (subst runSpecsLoop.simps) (simp add: split_def)
    then show ?thesis using failed[OF less.prems] by simp
  next
    case (Inr idx)
    have ge: "counter \<le> idx" using nextIndex_ge[OF Inr] .
    let ?st1 = "(fst st, fst (snd st), (snd (snd st))\<lparr>world := snd ?n\<rparr>)"
    show ?thesis
    proof (cases "idx \<ge> length specs")
      case True
      then have "runSpecsLoop env cfg specs counter st = ?st1"
        using Inr by (subst runSpecsLoop.simps) (simp add: split_def)
      then show ?thesis using stop[OF less.prems] by simp
    next
      case False
      then have eq: "runSpecsLoop env cfg specs counter st =
          runSpecsLoop env cfg specs (Suc idx) (runSpecsIteration env cfg (specs ! idx) ?st1)"
        using Inr by (subst runSpecsLoop.simps) (simp add: split_def)
      have "P (runSpecsIteration env cfg (specs ! idx) ?st1)"
        using step[OF _ less.prems] False by simp
      moreover have "length specs - Suc idx < length specs - counter"
        using False ge by simp
      ultimately show ?thesis
        unfolding eq using less.hyps by blast
    qed
  qed
qed



lemma runSpecsLoop_keeps:
  "keeps s (snd (snd (runSpecsLoop env cfg specs counter (r, ab, s))))"
proof (rule runSpecsLoop_invariant[where P = "\<lambda>st. keeps s (snd (snd st))"])
  fix i w and st :: "Report \<times> bool \<times> 'a Suite"
  assume "keeps s (snd (snd st))"
  then have "keeps s ((snd (snd st))\<lparr>world := w\<rparr>)" by (simp add: keeps_updates)
  from keeps_trans[OF this runSpecsIteration_keeps]
  show "keeps s (snd (snd (runSpecsIteration env cfg (specs ! i)
        (fst st, fst (snd st), (snd (snd st))\<lparr>world := w\<rparr>))))" .
qed (simp_all add: keeps_updates keeps_refl)

lemma runSpecsMain_keeps: "keeps s (snd (runSpecsMain env cfg specs (r, s)))"
  by (simp add: runSpecsMain_def Let_def split_def runSpecsLoop_keeps keeps_refl)

lemma keeps_processSpecReport_pair:
  "processSpecReport env cfg sr (r, t) = (a, b) \<Longrightarrow> keeps s t \<Longrightarrow> keeps s b"
  using keeps_processSpecReport[of s t env cfg sr r] by simp

lemma runBeforeSuite_keeps_case:
  "case runBeforeSuite env cfg n (r, s) of None \<Rightarrow> True | Some ra \<Rightarrow> keeps s (snd ra)"
proof -
  let ?s0 = "snd (getStatus env s)"
  have k0: "keeps s ?s0" by (rule getStatus_keeps)
  have c: "runSuiteNode env cfg node ch (?s0\<lparr>currentSpecReport := x, world := w\<rparr>)
      = Some after \<Longrightarrow> keeps s after" for node ch x w after
    using runSuiteNode_keeps[of env cfg node ch
        "?s0\<lparr>currentSpecReport := x, world := w\<rparr>" after] k0
    by (auto simp: keeps_updates intro: keeps_trans)
  show ?thesis
    using k0
    by (auto simp add: runBeforeSuite_def Let_def split_def
          split: option.splits intro: keeps_processSpecReport_pair c)
qed

lemma runAfterSuite_keeps_case:
  "case runAfterSuite env cfg n (r, s) of None \<Rightarrow> True | Some ra \<Rightarrow> keeps s (snd ra)"
proof -
  have c: "runSuiteNode env cfg node ch
              (snd (getStatus env (s\<lparr>currentSpecReport := x, world := w\<rparr>)))
      = Some after \<Longrightarrow> keeps s after" for node ch x w after
    using runSuiteNode_keeps[of env cfg node ch
        "snd (getStatus env (s\<lparr>currentSpecReport := x, world := w\<rparr>))" after]
      getStatus_keeps[of "s\<lparr>currentSpecReport := x, world := w\<rparr>" env]
    by (auto simp: keeps_updates intro: keeps_trans)
  show ?thesis
    by (auto simp add: runAfterSuite_def Let_def split_def keeps_refl
          split: option.splits intro: keeps_processSpecReport_pair c)
qed

lemma runSpecs_keeps_case:
  "case runSpecs env cfg description0 suitePath focus specs s of
     None \<Rightarrow> True | Some (report, after) \<Rightarrow> keeps s after"
proof (cases "runSpecs env cfg description0 suitePath focus specs s")
  case None
  then show ?thesis by simp
next
  case (Some ra)
  obtain report after where ra: "ra = (report, after)" by (cases ra)
  let ?n = "CountWithoutSkip specs"
  let ?rep = "\<lparr> SuitePath = suitePath, SuiteDescription = description0,
                     SuiteHasProgrammaticFocus = focus,
                     TotalSpecs = int (length specs),
                     SpecsThatWillRun = int ?n,
                     SuiteSucceeded = False, SpecialSuiteFailureReasons = [],
                     SpecReports = [] \<rparr>"
  let ?w1 = "notify env (SuiteWillBegin ?rep) (world s)"
  let ?w2 = "(if ParallelTotal cfg > 1 then notify env (PostSuiteWillBegin ?rep) ?w1 else ?w1)"
  let ?s1 = "s\<lparr>world := ?w2\<rparr>"
  let ?b = "runBeforeSuite env cfg ?n (?rep\<lparr>SuiteSucceeded := True\<rparr>, ?s1)"
  obtain r1 a1 where b: "?b = Some (r1, a1)"
    using Some by (cases ?b) (auto simp add: runSpecs_def Let_def)
  have k1: "keeps s a1"
    using runBeforeSuite_keeps_case[where env=env and cfg=cfg and n="?n"
        and r="?rep\<lparr>SuiteSucceeded := True\<rparr>" and s="?s1"] b
    by (simp add: keeps_updates)
  let ?m = "runSpecsMain env cfg specs (r1, a1)"
  have k2: "keeps s (snd ?m)" using keeps_trans[OF k1 runSpecsMain_keeps] .
  let ?a = "runAfterSuite env cfg ?n ?m"
  obtain r2 a2 where a: "?a = Some (r2, a2)"
    using Some b by (cases ?a) (auto simp add: runSpecs_def Let_def)
  have k3: "keeps s a2"
    using runAfterSuite_keeps_case[where env=env and cfg=cfg and n="?n"
        and r="fst ?m" and s="snd ?m"] a k2
    by (auto intro: keeps_trans)
  let ?s3 = "snd (getStatus env a2)"
  have k4: "keeps s ?s3" using keeps_trans[OF k3 getStatus_keeps] .
  have k5: "keeps s (snd (runReportAfterSuiteNodes env cfg nodes (r3, ?s3)))" for nodes r3
    using keeps_trans[OF k4 runReportAfterSuiteNodes_keeps] .
  have "keeps s after"
    using Some ra b a k4 k5
    by (auto simp add: runSpecs_def Let_def split_def keeps_updates split: if_splits)
  then show ?thesis using Some ra by simp
qed

section \<open>The race with the interrupt\<close>

text \<open>
  C4, as stated, fails for the report hooks: \<open>reportAfterEach\<close> (and
  \<open>runReportAfterSuiteNode\<close>) call \<open>runNode\<close> with a nil interrupt channel, so an
  interrupt that fires before the hook's body delivers its outcome is not seen, and
  \<open>runNode\<close> returns the body's outcome, here Passed.
\<close>

theorem interrupt_ignored_without_channel:
  "interruptFirst (fst (execBody (scriptedEnv interruptedScript)
       (exampleNode 7 NodeTypeReportAfterEach 0) (ReportAfterEachBody zeroSpecReport) None
       (world exampleSuite)))
   \<and> fst (fst (runNode (scriptedEnv interruptedScript) exampleConfig
         (exampleNode 7 NodeTypeReportAfterEach 0) (ReportAfterEachBody zeroSpecReport) None []
         exampleSuite)) = SpecStatePassed
   \<and> State (currentSpecReport
         (reportAfterEach (scriptedEnv interruptedScript) exampleConfig reportedSpec passedSuite))
       = SpecStatePassed
   \<and> map (NodeType \<circ> fst)
         (invoked (reportAfterEach (scriptedEnv interruptedScript) exampleConfig reportedSpec
                     passedSuite))
       = [NodeTypeReportAfterEach]
   \<and> abandoned (reportAfterEach (scriptedEnv interruptedScript) exampleConfig reportedSpec
                  passedSuite) = []"
  by code_simp

text \<open>
  C4, amended. When \<open>runNode\<close> is given an interrupt channel and the interrupt fires
  before the body delivers its outcome, \<open>runNode\<close> returns the state Interrupted, never
  Passed, with the interrupt handler's message with stack traces as the failure message
  and the node's code location. The eventual result of the goroutine is discarded:
  whatever outcome, failure, output and data the body ends with, \<open>runNode\<close> returns the
  same state, failure and suite. The goroutine is not joined: \<open>runNode\<close> receives nothing
  from it, the data of a body that ended stays what it was, and the goroutine is left
  behind. It is not ended either: whatever runs afterwards (a node, a spec, the report
  hooks, a suite node, all the specs) only adds to the goroutines left behind.
\<close>

theorem interrupt_wins:
  assumes "interruptFirst (fst (execBody env node body (Some ch) (world suite)))"
  shows "fst (fst (runNode env suiteConfig node body (Some ch) text suite)) = SpecStateInterrupted
    \<and> fst (fst (runNode env suiteConfig node body (Some ch) text suite)) \<noteq> SpecStatePassed
    \<and> Message (snd (fst (runNode env suiteConfig node body (Some ch) text suite)))
        = InterruptMessageWithStackTraces env
            (snd (execBody env node body (Some ch) (world suite)))
    \<and> Location (snd (fst (runNode env suiteConfig node body (Some ch) text suite)))
        = CodeLocation node
    \<and> runNode
          (env\<lparr>execBody := (\<lambda>n b c w. case execBody env n b c w of
                   (run, w1) \<Rightarrow> (run\<lparr>outcome := otherOutcome,
                                      failureFromRun := otherFailure,
                                      written := otherOutput,
                                      returned := otherData\<rparr>, w1))\<rparr>)
          suiteConfig node body (Some ch) text suite
        = runNode env suiteConfig node body (Some ch) text suite
    \<and> invoked (snd (runNode env suiteConfig node body (Some ch) text suite))
        = invoked suite @ [(node, body)]
    \<and> abandoned (snd (runNode env suiteConfig node body (Some ch) text suite))
        = abandoned suite @ [(node, body)]
    \<and> bodyData (snd (runNode env suiteConfig node body (Some ch) text suite)) = bodyData suite
    \<and> prefix (abandoned later)
         (abandoned (snd (runNode env2 suiteConfig2 node2 body2 ch2 text2 later)))
    \<and> prefix (abandoned later) (abandoned (runSpec env2 suiteConfig2 spec2 later))
    \<and> prefix (abandoned later) (abandoned (reportAfterEach env2 suiteConfig2 spec2 later))
    \<and> (case runSuiteNode env2 suiteConfig2 node2 ch2 later of
          None \<Rightarrow> True
        | Some after \<Rightarrow> prefix (abandoned later) (abandoned after))
    \<and> (case runSpecs env2 suiteConfig2 description2 suitePath2 focus2 specs2 later of
          None \<Rightarrow> True
        | Some ra \<Rightarrow> prefix (abandoned later) (abandoned (snd ra)))"
proof -
  have now: "fst (fst (runNode env suiteConfig node body (Some ch) text suite))
        = SpecStateInterrupted
    \<and> Message (snd (fst (runNode env suiteConfig node body (Some ch) text suite)))
        = InterruptMessageWithStackTraces env
            (snd (execBody env node body (Some ch) (world suite)))
    \<and> Location (snd (fst (runNode env suiteConfig node body (Some ch) text suite)))
        = CodeLocation node
    \<and> runNode
          (env\<lparr>execBody := (\<lambda>n b c w. case execBody env n b c w of
                   (run, w1) \<Rightarrow> (run\<lparr>outcome := otherOutcome,
                                      failureFromRun := otherFailure,
                                      written := otherOutput,
                                      returned := otherData\<rparr>, w1))\<rparr>)
          suiteConfig node body (Some ch) text suite
        = runNode env suiteConfig node body (Some ch) text suite
    \<and> invoked (snd (runNode env suiteConfig node body (Some ch) text suite))
        = invoked suite @ [(node, body)]
    \<and> abandoned (snd (runNode env suiteConfig node body (Some ch) text suite))
        = abandoned suite @ [(node, body)]
    \<and> bodyData (snd (runNode env suiteConfig node body (Some ch) text suite)) = bodyData suite"
    using assms
    by (simp add: runNode_def Let_def split_def progressLine_def)
  have l1: "prefix (abandoned later)
         (abandoned (snd (runNode env2 suiteConfig2 node2 body2 ch2 text2 later)))"
    using runNode_keeps[of later env2 suiteConfig2 node2 body2 ch2 text2]
    by (simp add: keeps_def)
  have l2: "prefix (abandoned later) (abandoned (runSpec env2 suiteConfig2 spec2 later))"
    using runSpec_keeps[of later env2 suiteConfig2 spec2] by (simp add: keeps_def)
  have l3: "prefix (abandoned later) (abandoned (reportAfterEach env2 suiteConfig2 spec2 later))"
    using reportAfterEach_keeps[of later env2 suiteConfig2 spec2] by (simp add: keeps_def)
  have l4: "case runSuiteNode env2 suiteConfig2 node2 ch2 later of
          None \<Rightarrow> True
        | Some after \<Rightarrow> prefix (abandoned later) (abandoned after)"
    using runSuiteNode_keeps_case[where env=env2 and cfg=suiteConfig2 and node=node2
        and ch=ch2 and s=later]
    by (simp add: keeps_def split: option.splits)
  have l5: "case runSpecs env2 suiteConfig2 description2 suitePath2 focus2 specs2 later of
          None \<Rightarrow> True
        | Some ra \<Rightarrow> prefix (abandoned later) (abandoned (snd ra))"
    using runSpecs_keeps_case[where env=env2 and cfg=suiteConfig2
        and ?description0.0=description2 and suitePath=suitePath2 and focus=focus2
        and specs=specs2 and s=later]
    by (auto simp add: keeps_def split: option.splits)
  show ?thesis
    using now l1 l2 l3 l4 l5 by simp
qed

theorem interrupt_wins_witness:
  "fst (fst (runNode (scriptedEnv interruptedScript) exampleConfig (exampleNode 1 NodeTypeIt 1)
       Body (Some 0) [] exampleSuite)) = SpecStateInterrupted
   \<and> Message (snd (fst (runNode (scriptedEnv interruptedScript) exampleConfig
       (exampleNode 1 NodeTypeIt 1) Body (Some 0) [] exampleSuite))) = ''interrupted''
   \<and> abandoned (snd (runNode (scriptedEnv interruptedScript) exampleConfig
       (exampleNode 1 NodeTypeIt 1) Body (Some 0) [] exampleSuite))
       = [(exampleNode 1 NodeTypeIt 1, Body)]"
proof -
  have h: "interruptFirst (fst (execBody (scriptedEnv interruptedScript)
       (exampleNode 1 NodeTypeIt 1) Body (Some 0) (world exampleSuite)))"
    by code_simp
  have m: "InterruptMessageWithStackTraces (scriptedEnv interruptedScript)
            (snd (execBody (scriptedEnv interruptedScript) (exampleNode 1 NodeTypeIt 1) Body
               (Some 0) (world exampleSuite))) = ''interrupted''"
    by code_simp
  have a: "abandoned exampleSuite = []" by code_simp
  note all = interrupt_wins[OF h, of exampleConfig "[]"]
  note c1 = all[THEN conjunct1]
  note c3 = all[THEN conjunct2, THEN conjunct2, THEN conjunct1]
  note c7 = all[THEN conjunct2, THEN conjunct2, THEN conjunct2, THEN conjunct2,
                THEN conjunct2, THEN conjunct2, THEN conjunct1]
  show ?thesis
    using c1 c3 c7 m a by simp
qed

section \<open>The synchronized before-suite hook\<close>

lemma runNode_server: "server (snd (runNode env cfg node body ch text s)) = server s"
  by (simp add: runNode_def Let_def split_def)

lemma runNode_bodyData:
  "fst (fst (runNode env cfg node body ch text s)) = SpecStatePassed \<Longrightarrow>
   bodyData (snd (runNode env cfg node body ch text s))
     = returned (fst (execBody env node body ch (world s)))"
  by (auto simp add: runNode_def Let_def split_def split: if_splits)

lemma runNode_world:
  "world (snd (runNode env cfg node body ch text s))
     = snd (execBody env node body ch (world s))"
  by (simp add: runNode_def Let_def split_def)

lemma finishSuiteNode_invoked: "invoked (finishSuiteNode env node err s) = invoked s"
  by (simp add: finishSuiteNode_def Let_def split_def setStateFailure_def split: option.splits)

lemma finishSuiteNode_server: "server (finishSuiteNode env node err s) = server s"
  by (simp add: finishSuiteNode_def Let_def split_def setStateFailure_def split: option.splits)

lemma primary_synchronizedBeforeSuite:
  assumes "ParallelNode cfg = 1" "ParallelTotal cfg > 1"
  shows "\<exists>err after. runSynchronizedBeforeSuite env cfg node ch
             (suite\<lparr>writer := [], world := StartInterceptingOutput env (world suite)\<rparr>)
           = Some (err, after)
      \<and> invoked after = invoked suite @ (node, SynchronizedBeforeSuiteNode1Body)
           # (if producedState env cfg node ch suite = SpecStatePassed
                 \<and> broadcastError env node ch suite = None
              then [(node, SynchronizedBeforeSuiteAllNodesBody (producedData env node ch suite))]
              else [])
      \<and> (server after = BeforeSuiteSucceeded (producedData env node ch suite)
             \<and> producedState env cfg node ch suite = SpecStatePassed
             \<and> broadcastError env node ch suite = None
           \<or> (server after = server suite \<or> server after = BeforeSuiteFailed)
             \<and> \<not> (producedState env cfg node ch suite = SpecStatePassed
                    \<and> broadcastError env node ch suite = None))"
  using assms
  by (simp add: runSynchronizedBeforeSuite_def Let_def split_def runNode_bodyData
      producedState_def producedData_def broadcastError_def
      clientPostSynchronizedBeforeSuiteSucceeded_def
      clientPostSynchronizedBeforeSuiteFailed_def setStateFailure_def
      runNode_invoked runNode_server runNode_currentSpecReport runNode_world
      split: option.splits)

lemma other_synchronizedBeforeSuite_blocks:
  assumes "ParallelNode cfg \<noteq> 1"
  shows "(runSynchronizedBeforeSuite env cfg node ch suite = None)
     = (fst (transportError env BlockUntilSynchronizedBeforeSuiteData (world suite)) = None
        \<and> server suite = BeforeSuitePending)"
  using assms
  by (simp add: runSynchronizedBeforeSuite_def clientBlockUntilSynchronizedBeforeSuiteData_def
      Let_def split_def split: option.splits BeforeSuiteState.splits)

lemma other_synchronizedBeforeSuite_invoked:
  assumes "ParallelNode cfg \<noteq> 1"
    and "runSynchronizedBeforeSuite env cfg node ch suite = Some (err, after)"
  shows "invoked after = invoked suite
     @ (case server suite of
          BeforeSuiteSucceeded d \<Rightarrow>
            (if fst (transportError env BlockUntilSynchronizedBeforeSuiteData (world suite)) = None
             then [(node, SynchronizedBeforeSuiteAllNodesBody d)] else [])
        | _ \<Rightarrow> [])"
  using assms
  by (auto simp add: runSynchronizedBeforeSuite_def
      clientBlockUntilSynchronizedBeforeSuiteData_def setStateFailure_def
      Let_def split_def runNode_invoked split: option.splits BeforeSuiteState.splits)

lemma runSuiteNode_synchronizedBeforeSuite:
  assumes "NodeType node = NodeTypeSynchronizedBeforeSuite" "\<not> DryRun cfg"
  shows "runSuiteNode env cfg node ch suite =
     (case runSynchronizedBeforeSuite env cfg node ch
             (suite\<lparr>writer := [], world := StartInterceptingOutput env (world suite)\<rparr>) of
        None \<Rightarrow> None
      | Some (err, suite1) \<Rightarrow> Some (finishSuiteNode env node err suite1))"
  using assms by (simp add: runSuiteNode_def Let_def)


text \<open>
  C5. For a SynchronizedBeforeSuite node run on the primary worker (parallel node 1, more
  than one worker, the coordination service still without data) and then on any other
  worker: the primary starts the produce body and then, only when that body passed and the
  broadcast of its data had no error, the consume body with exactly that data; the other
  worker starts no produce body, and starts the consume body, with exactly the data the
  primary's produce body returned, only when the produce body passed, the broadcast had no
  error and its own read had none; when the produce step or the broadcast failed, neither
  worker starts the consume body (the other worker gets an error or blocks).
\<close>

theorem synchronized_before_suite:
  assumes "NodeType node = NodeTypeSynchronizedBeforeSuite"
    and "\<not> DryRun cfg1" and "\<not> DryRun cfg2"
    and "ParallelNode cfg1 = 1" and "ParallelTotal cfg1 > 1" and "ParallelNode cfg2 \<noteq> 1"
    and "server suite1 = BeforeSuitePending"
  shows "\<exists>after1 result2.
     otherWorkerAfterPrimary env1 cfg1 ch1 suite1 env2 cfg2 ch2 suite2 node
       = Some (after1, result2)
     \<and> invoked after1 = invoked suite1 @ (node, SynchronizedBeforeSuiteNode1Body)
          # (if producedState env1 cfg1 node ch1 suite1 = SpecStatePassed
                \<and> broadcastError env1 node ch1 suite1 = None
             then [(node, SynchronizedBeforeSuiteAllNodesBody (producedData env1 node ch1 suite1))]
             else [])
     \<and> (case result2 of
          None \<Rightarrow> \<not> (producedState env1 cfg1 node ch1 suite1 = SpecStatePassed
                      \<and> broadcastError env1 node ch1 suite1 = None)
        | Some after2 \<Rightarrow>
            invoked after2 = invoked suite2
              @ (if producedState env1 cfg1 node ch1 suite1 = SpecStatePassed
                    \<and> broadcastError env1 node ch1 suite1 = None
                    \<and> fst (transportError env2 BlockUntilSynchronizedBeforeSuiteData
                             (StartInterceptingOutput env2 (world suite2))) = None
                 then [(node, SynchronizedBeforeSuiteAllNodesBody
                          (producedData env1 node ch1 suite1))]
                 else []))"
proof -
  let ?ok = "producedState env1 cfg1 node ch1 suite1 = SpecStatePassed
                \<and> broadcastError env1 node ch1 suite1 = None"
  let ?d = "producedData env1 node ch1 suite1"
  obtain err a1 where
    p: "runSynchronizedBeforeSuite env1 cfg1 node ch1
          (suite1\<lparr>writer := [], world := StartInterceptingOutput env1 (world suite1)\<rparr>)
          = Some (err, a1)"
    and pi: "invoked a1 = invoked suite1 @ (node, SynchronizedBeforeSuiteNode1Body)
          # (if ?ok then [(node, SynchronizedBeforeSuiteAllNodesBody ?d)] else [])"
    and ps: "(server a1 = BeforeSuiteSucceeded ?d \<and> ?ok)
           \<or> ((server a1 = server suite1 \<or> server a1 = BeforeSuiteFailed) \<and> \<not> ?ok)"
    using primary_synchronizedBeforeSuite[OF assms(4,5), of env1 node ch1 suite1] by blast
  let ?after1 = "finishSuiteNode env1 node err a1"
  have r1: "runSuiteNode env1 cfg1 node ch1 suite1 = Some ?after1"
    by (simp add: runSuiteNode_synchronizedBeforeSuite[OF assms(1,2)] p)
  let ?s2 = "suite2\<lparr>server := server ?after1\<rparr>"
  let ?s20 = "?s2\<lparr>writer := [], world := StartInterceptingOutput env2 (world ?s2)\<rparr>"
  let ?r2 = "runSuiteNode env2 cfg2 node ch2 ?s2"
  have both: "otherWorkerAfterPrimary env1 cfg1 ch1 suite1 env2 cfg2 ch2 suite2 node
      = Some (?after1, ?r2)"
    by (simp add: otherWorkerAfterPrimary_def r1)
  have sv: "server ?s20 = server a1"
    by (simp add: finishSuiteNode_server)
  have w2: "world ?s20 = StartInterceptingOutput env2 (world suite2)" by simp
  have i2: "invoked ?s20 = invoked suite2" by simp
  have second: "case ?r2 of
          None \<Rightarrow> \<not> ?ok
        | Some after2 \<Rightarrow>
            invoked after2 = invoked suite2
              @ (if producedState env1 cfg1 node ch1 suite1 = SpecStatePassed
                    \<and> broadcastError env1 node ch1 suite1 = None
                    \<and> fst (transportError env2 BlockUntilSynchronizedBeforeSuiteData
                             (StartInterceptingOutput env2 (world suite2))) = None
                 then [(node, SynchronizedBeforeSuiteAllNodesBody ?d)] else [])"
  proof (cases "runSynchronizedBeforeSuite env2 cfg2 node ch2 ?s20")
    case None
    then have "server a1 = BeforeSuitePending"
      using other_synchronizedBeforeSuite_blocks[OF assms(6), of env2 node ch2 ?s20] sv
      by simp
    then have "\<not> ?ok" using ps by auto
    moreover have "?r2 = None"
      using None by (simp add: runSuiteNode_synchronizedBeforeSuite[OF assms(1,3)])
    ultimately show ?thesis by simp
  next
    case (Some ea)
    obtain e2 a2 where ea: "ea = (e2, a2)" by (cases ea)
    have r2: "?r2 = Some (finishSuiteNode env2 node e2 a2)"
      using Some ea by (simp add: runSuiteNode_synchronizedBeforeSuite[OF assms(1,3)])
    have "invoked a2 = invoked ?s20
     @ (case server ?s20 of
          BeforeSuiteSucceeded d \<Rightarrow>
            (if fst (transportError env2 BlockUntilSynchronizedBeforeSuiteData (world ?s20)) = None
             then [(node, SynchronizedBeforeSuiteAllNodesBody d)] else [])
        | _ \<Rightarrow> [])"
      using other_synchronizedBeforeSuite_invoked[OF assms(6), of env2 node ch2 ?s20 e2 a2]
        Some ea by simp
    then have "invoked a2 = invoked suite2
     @ (case server a1 of
          BeforeSuiteSucceeded d \<Rightarrow>
            (if fst (transportError env2 BlockUntilSynchronizedBeforeSuiteData
                       (StartInterceptingOutput env2 (world suite2))) = None
             then [(node, SynchronizedBeforeSuiteAllNodesBody d)] else [])
        | _ \<Rightarrow> [])"
      unfolding sv w2 i2 .
    then show ?thesis
      using ps assms(7) unfolding r2
      by (auto simp: finishSuiteNode_invoked)
  qed
  have first: "invoked ?after1 = invoked suite1 @ (node, SynchronizedBeforeSuiteNode1Body)
          # (if ?ok then [(node, SynchronizedBeforeSuiteAllNodesBody ?d)] else [])"
    using pi by (simp add: finishSuiteNode_invoked)
  show ?thesis
    by (rule exI[of _ ?after1], rule exI[of _ ?r2]) (intro conjI both first second)
qed

theorem synchronized_before_suite_witness:
  "\<exists>after1 after2.
     otherWorkerAfterPrimary (scriptedEnv passingScript) primaryConfig (Some 0) exampleSuite
         (scriptedEnv passingScript) secondConfig (Some 0) exampleSuite synchronizedNode
       = Some (after1, Some after2)
     \<and> invoked after1 =
         [(synchronizedNode, SynchronizedBeforeSuiteNode1Body),
          (synchronizedNode, SynchronizedBeforeSuiteAllNodesBody ''data'')]
     \<and> invoked after2 = [(synchronizedNode, SynchronizedBeforeSuiteAllNodesBody ''data'')]"
proof -
  let ?env = "scriptedEnv passingScript"
  let ?node = "synchronizedNode"
  have h1: "NodeType ?node = NodeTypeSynchronizedBeforeSuite" by code_simp
  have h2: "\<not> DryRun primaryConfig" by code_simp
  have h3: "\<not> DryRun secondConfig" by code_simp
  have h4: "ParallelNode primaryConfig = 1" by code_simp
  have h5: "ParallelTotal primaryConfig > 1" by code_simp
  have h6: "ParallelNode secondConfig \<noteq> 1" by code_simp
  have h7: "server exampleSuite = BeforeSuitePending" by code_simp
  have e1: "producedState ?env primaryConfig ?node (Some 0) exampleSuite = SpecStatePassed"
    by code_simp
  have e2: "broadcastError ?env ?node (Some 0) exampleSuite = None" by code_simp
  have e3: "producedData ?env ?node (Some 0) exampleSuite = ''data''" by code_simp
  have e4: "fst (transportError ?env BlockUntilSynchronizedBeforeSuiteData
                   (StartInterceptingOutput ?env (world exampleSuite))) = None"
    by code_simp
  have e5: "invoked exampleSuite = []" by code_simp
  obtain after1 result2 where
    r: "otherWorkerAfterPrimary ?env primaryConfig (Some 0) exampleSuite
          ?env secondConfig (Some 0) exampleSuite ?node = Some (after1, result2)"
    and i1: "invoked after1 = [(?node, SynchronizedBeforeSuiteNode1Body),
          (?node, SynchronizedBeforeSuiteAllNodesBody ''data'')]"
    and c2: "case result2 of None \<Rightarrow> False
        | Some after2 \<Rightarrow>
            invoked after2 = [(?node, SynchronizedBeforeSuiteAllNodesBody ''data'')]"
    using synchronized_before_suite[OF h1 h2 h3 h4 h5 h6 h7,
        of ?env "Some 0" ?env "Some 0" exampleSuite]
    unfolding e1 e2 e3 e4 e5 by (auto split: option.splits)
  from c2 obtain after2 where "result2 = Some after2"
    and "invoked after2 = [(?node, SynchronizedBeforeSuiteAllNodesBody ''data'')]"
    by (cases result2) auto
  with r i1 show ?thesis by blast
qed

end
